theory Spec2Isabelle
  imports Complex_Main "HOL-Library.AList"
begin

section \<open>Data model\<close>

text \<open>
  The pipeline of \<^verbatim>\<open>posture_algorithms.py\<close> works on pandas data frames.  A data frame is
  modelled by its number of rows (the length of its index) and its columns in order, each
  column a list of cells.  Floating-point numbers are idealised as reals; the not-a-number
  values that the code itself produces (the first entry of a \<^verbatim>\<open>diff\<close>, a rolling
  statistic with too few observations, the statistics of an empty series) are modelled by
  \<open>None\<close> in \<open>real option\<close>.  Exceptions are values of the type \<open>error\<close>.
\<close>

datatype error =
    KeyError | ValueError | TypeError | ZeroDivisionError | OverflowError | IndexError
  | InvalidReference

datatype cell = F real | I int | S string

type_synonym column = "cell list"

record dataframe =
  nrows :: nat
  cols :: "(string \<times> column) list"

text \<open>The number held by a cell; a string cell holds none.\<close>

fun num :: "cell \<Rightarrow> real option" where
  "num (F x) = Some x"
| "num (I n) = Some (of_int n)"
| "num (S s) = None"

fun is_number :: "cell \<Rightarrow> bool" where
  "is_number (F x) = True"
| "is_number (I n) = True"
| "is_number (S s) = False"

definition as_float :: "column \<Rightarrow> error + real list" where
  "as_float c = (if list_all is_number c then Inr (map (the \<circ> num) c) else Inl TypeError)"

text \<open>A column of floating-point numbers.\<close>

definition floats :: "real list \<Rightarrow> column" where
  "floats xs = map F xs"

text \<open>\<^verbatim>\<open>name in df.columns\<close>\<close>

definition has_col :: "dataframe \<Rightarrow> string \<Rightarrow> bool" where
  "has_col d name = (map_of (cols d) name \<noteq> None)"

text \<open>
  Assigning a whole column: an existing column is replaced in its place, a new one is
  appended after the others.
\<close>

definition set_col :: "string \<Rightarrow> column \<Rightarrow> dataframe \<Rightarrow> dataframe" where
  "set_col name c d = d\<lparr>cols := AList.update name c (cols d)\<rparr>"

text \<open>
  \<open>num_col d name = Some xs\<close>: the frame has a column of that name, of the frame's
  length, whose cells are the numbers \<open>xs\<close>.  It is used to say what a stage is given
  and what it returns.
\<close>

definition num_col :: "dataframe \<Rightarrow> string \<Rightarrow> real list option" where
  "num_col d name =
     (case map_of (cols d) name of
        None \<Rightarrow> None
      | Some c \<Rightarrow> if length c = nrows d \<and> list_all is_number c
                  then Some (map (the \<circ> num) c) else None)"

definition cell_col :: "dataframe \<Rightarrow> string \<Rightarrow> column option" where
  "cell_col d name =
     (case map_of (cols d) name of
        None \<Rightarrow> None
      | Some c \<Rightarrow> if length c = nrows d then Some c else None)"

subsection \<open>The store of data frames\<close>

text \<open>
  Data frames are mutable objects, and a Python variable holds a reference to one.  The
  store is the list of the objects allocated so far, a reference is an index into it,
  and a statement of the code is a function from the store to a result, or an exception,
  and the store it leaves.
\<close>

type_synonym ref = nat
type_synonym store = "dataframe list"
type_synonym 'a prog = "store \<Rightarrow> (error + 'a) \<times> store"

definition return :: "'a \<Rightarrow> 'a prog" where
  "return x = (\<lambda>s. (Inr x, s))"

definition raise :: "error \<Rightarrow> 'a prog" where
  "raise e = (\<lambda>s. (Inl e, s))"

definition lift :: "error + 'a \<Rightarrow> 'a prog" where
  "lift r = (\<lambda>s. (r, s))"

definition bind :: "'a prog \<Rightarrow> ('a \<Rightarrow> 'b prog) \<Rightarrow> 'b prog" where
  "bind m f = (\<lambda>s. case m s of (Inl e, s') \<Rightarrow> (Inl e, s') | (Inr x, s') \<Rightarrow> f x s')"

primrec for_each :: "'a list \<Rightarrow> ('a \<Rightarrow> unit prog) \<Rightarrow> unit prog" where
  "for_each [] f = return ()"
| "for_each (x # xs) f = bind (f x) (\<lambda>_. for_each xs f)"

definition read_df :: "ref \<Rightarrow> dataframe prog" where
  "read_df r = (\<lambda>s. if r < length s then (Inr (s ! r), s) else (Inl InvalidReference, s))"

definition write_df :: "ref \<Rightarrow> dataframe \<Rightarrow> unit prog" where
  "write_df r d = (\<lambda>s. if r < length s then (Inr (), s[r := d]) else (Inl InvalidReference, s))"

text \<open>\<^verbatim>\<open>df.copy()\<close>: a new object with the same rows and columns.\<close>

definition df_copy :: "ref \<Rightarrow> ref prog" where
  "df_copy r = (\<lambda>s. if r < length s then (Inr (length s), s @ [s ! r])
                     else (Inl InvalidReference, s))"

text \<open>\<^verbatim>\<open>len(df)\<close>\<close>

definition len_df :: "ref \<Rightarrow> nat prog" where
  "len_df r = bind (read_df r) (\<lambda>d. return (nrows d))"

text \<open>\<^verbatim>\<open>name in df.columns\<close>\<close>

definition columns_contains :: "ref \<Rightarrow> string \<Rightarrow> bool prog" where
  "columns_contains r name = bind (read_df r) (\<lambda>d. return (has_col d name))"

text \<open>\<^verbatim>\<open>df[name]\<close>, and the same read where the code goes on to compute with numbers.\<close>

definition getitem :: "ref \<Rightarrow> string \<Rightarrow> column prog" where
  "getitem r name = bind (read_df r) (\<lambda>d.
     case map_of (cols d) name of None \<Rightarrow> raise KeyError | Some c \<Rightarrow> return c)"

definition get_float :: "ref \<Rightarrow> string \<Rightarrow> real list prog" where
  "get_float r name = bind (getitem r name) (\<lambda>c. lift (as_float c))"

text \<open>
  \<^verbatim>\<open>df[name] = values\<close>; pandas raises \<^verbatim>\<open>ValueError\<close> when the length of the values is
  not the length of the index.  \<^verbatim>\<open>df[name] = v\<close> with a scalar fills the column.
\<close>

definition setitem :: "ref \<Rightarrow> string \<Rightarrow> column \<Rightarrow> unit prog" where
  "setitem r name c = bind (read_df r) (\<lambda>d.
     if length c \<noteq> nrows d then raise ValueError else write_df r (set_col name c d))"

definition setitem_scalar :: "ref \<Rightarrow> string \<Rightarrow> cell \<Rightarrow> unit prog" where
  "setitem_scalar r name v = bind (read_df r) (\<lambda>d.
     write_df r (set_col name (replicate (nrows d) v) d))"

text \<open>\<^verbatim>\<open>df.iloc[i][name]\<close>, read as a number for a comparison.\<close>

definition iloc_float :: "ref \<Rightarrow> nat \<Rightarrow> string \<Rightarrow> real prog" where
  "iloc_float r i name = bind (read_df r) (\<lambda>d.
     if nrows d \<le> i then raise IndexError
     else case map_of (cols d) name of
            None \<Rightarrow> raise KeyError
          | Some c \<Rightarrow> if length c \<le> i then raise IndexError
                      else (case num (c ! i) of None \<Rightarrow> raise TypeError | Some x \<Rightarrow> return x))"

subsection \<open>Writing one cell\<close>

text \<open>
  A column has a dtype, read off its cells: \<^verbatim>\<open>int64\<close> when all are integers,
  \<^verbatim>\<open>float64\<close> when all are numbers, and a column with a string in it holds any
  object.  A value fits a column when it can be stored without loss: any value in an
  object column, a number in a float column, an integer or a whole float in an integer
  column.
\<close>

datatype dtype = Int64 | Float64 | Object

fun is_int :: "cell \<Rightarrow> bool" where
  "is_int (I n) = True"
| "is_int (F x) = False"
| "is_int (S s) = False"

definition dtype_of :: "column \<Rightarrow> dtype" where
  "dtype_of c = (if list_all is_int c then Int64
                 else if list_all is_number c then Float64 else Object)"

fun fits :: "dtype \<Rightarrow> cell \<Rightarrow> bool" where
  "fits Object v = True"
| "fits Float64 v = is_number v"
| "fits Int64 (I n) = True"
| "fits Int64 (F x) = (of_int \<lfloor>x\<rfloor> = x)"
| "fits Int64 (S s) = False"

text \<open>The value as the column stores it.\<close>

fun cast :: "dtype \<Rightarrow> cell \<Rightarrow> cell" where
  "cast Int64 (F x) = I \<lfloor>x\<rfloor>"
| "cast Float64 (I n) = F (of_int n)"
| "cast t v = v"

text \<open>
  What a cell write does with a value that does not fit depends on the version of
  pandas, which the program does not fix.  Before pandas 3.0 the column is widened to a
  dtype that holds the value (an integer column becomes a float column for a float;
  from pandas 2.1 with a \<^verbatim>\<open>FutureWarning\<close>, which the module silences); from pandas 3.0
  the write raises \<^verbatim>\<open>TypeError\<close>.
\<close>

datatype pandas = Upcasting | Strict

fun to_float :: "cell \<Rightarrow> cell" where
  "to_float (I n) = F (of_int n)"
| "to_float v = v"

definition widen :: "column \<Rightarrow> cell \<Rightarrow> column" where
  "widen c v = (if is_number v \<and> list_all is_number c then map to_float c else c)"

definition put_cell :: "pandas \<Rightarrow> column \<Rightarrow> nat \<Rightarrow> cell \<Rightarrow> error + column" where
  "put_cell pd c i v =
     (if fits (dtype_of c) v then Inr (c[i := cast (dtype_of c) v])
      else case pd of
             Strict \<Rightarrow> Inl TypeError
           | Upcasting \<Rightarrow> Inr ((widen c v)[i := v]))"

text \<open>\<^verbatim>\<open>df.iloc[i, df.columns.get_loc(name)] = v\<close>\<close>

definition iloc_set :: "pandas \<Rightarrow> ref \<Rightarrow> nat \<Rightarrow> string \<Rightarrow> cell \<Rightarrow> unit prog" where
  "iloc_set pd r i name v = bind (read_df r) (\<lambda>d.
     case map_of (cols d) name of
       None \<Rightarrow> raise KeyError
     | Some c \<Rightarrow> if nrows d \<le> i \<or> length c \<le> i then raise IndexError
                 else bind (lift (put_cell pd c i v)) (\<lambda>c'.
                        write_df r (set_col name c' d)))"

subsection \<open>Series operations\<close>

text \<open>
  \<^verbatim>\<open>Series.mean()\<close> and \<^verbatim>\<open>Series.std()\<close> (sample standard deviation, one degree of
  freedom removed); they are not-a-number on an empty series, and the deviation also on
  a series of one value.
\<close>

definition mean :: "real list \<Rightarrow> real option" where
  "mean xs = (if xs = [] then None else Some (sum_list xs / real (length xs)))"

definition variance :: "real list \<Rightarrow> real" where
  "variance xs = sum_list (map (\<lambda>x. (x - sum_list xs / real (length xs))\<^sup>2) xs)
                   / real (length xs - 1)"

definition std :: "real list \<Rightarrow> real option" where
  "std xs = (if length xs < 2 then None else Some (sqrt (variance xs)))"

text \<open>The observations of a series that are numbers.\<close>

definition valid :: "real option list \<Rightarrow> real list" where
  "valid ys = map the (filter (\<lambda>y. y \<noteq> None) ys)"

text \<open>
  \<^verbatim>\<open>Series.rolling(window=w, min_periods=mp)\<close>: the window of index \<open>i\<close> holds the entries
  \<open>i - w + 1\<close> to \<open>i\<close> that exist, and the statistic is a number only when at least
  \<open>mp\<close> of them are numbers.
\<close>

definition window :: "nat \<Rightarrow> 'a list \<Rightarrow> nat \<Rightarrow> 'a list" where
  "window w ys i = drop (Suc i - w) (take (Suc i) ys)"

definition rolling_std :: "nat \<Rightarrow> nat \<Rightarrow> real option list \<Rightarrow> real option list" where
  "rolling_std w mp ys =
     map (\<lambda>i. let v = valid (window w ys i) in if length v < mp then None else std v)
       [0..<length ys]"

definition rolling_mean :: "nat \<Rightarrow> nat \<Rightarrow> real option list \<Rightarrow> real option list" where
  "rolling_mean w mp ys =
     map (\<lambda>i. let v = valid (window w ys i) in if length v < mp then None else mean v)
       [0..<length ys]"

text \<open>\<^verbatim>\<open>Series.diff()\<close>: the first entry has no predecessor.\<close>

fun opt_sub :: "real option \<Rightarrow> real option \<Rightarrow> real option" where
  "opt_sub (Some a) (Some b) = Some (a - b)"
| "opt_sub _ _ = None"

fun diff_from :: "real option \<Rightarrow> real option list \<Rightarrow> real option list" where
  "diff_from prev [] = []"
| "diff_from prev (y # ys) = opt_sub y prev # diff_from y ys"

definition diff :: "real option list \<Rightarrow> real option list" where
  "diff ys = diff_from None ys"

text \<open>\<^verbatim>\<open>Series.fillna(0)\<close>\<close>

definition fillna0 :: "real option list \<Rightarrow> real list" where
  "fillna0 ys = map (\<lambda>y. case y of None \<Rightarrow> 0 | Some v \<Rightarrow> v) ys"

text \<open>\<^verbatim>\<open>np.cumsum\<close>\<close>

fun cumsum_from :: "real \<Rightarrow> real list \<Rightarrow> real list" where
  "cumsum_from acc [] = []"
| "cumsum_from acc (x # xs) = (acc + x) # cumsum_from (acc + x) xs"

definition cumsum :: "real list \<Rightarrow> real list" where
  "cumsum xs = cumsum_from 0 xs"

text \<open>
  \<^verbatim>\<open>np.arctan2(y, x)\<close>, the angle of the point \<open>(x, y)\<close> in \<open>(-\<pi>, \<pi>]\<close>, with the value
  \<open>0\<close> at the origin.
\<close>

definition arctan2 :: "real \<Rightarrow> real \<Rightarrow> real" where
  "arctan2 y x =
     (if 0 < x then arctan (y / x)
      else if x < 0 then (if 0 \<le> y then arctan (y / x) + pi else arctan (y / x) - pi)
      else if 0 < y then pi / 2
      else if y < 0 then - (pi / 2)
      else 0)"

subsection \<open>Library routines\<close>

text \<open>
  The digital filters of \<^verbatim>\<open>scipy.signal\<close> and the least-squares fit of numpy are not
  part of the program; their numerical results are parameters of the model.  What the
  model fixes is when they refuse their input: \<^verbatim>\<open>filtfilt(b, a, x)\<close> pads the signal by
  \<^verbatim>\<open>3 * max(len(a), len(b))\<close> samples on each side by default and raises
  \<^verbatim>\<open>ValueError\<close> unless \<^verbatim>\<open>x\<close> is longer than that; \<^verbatim>\<open>savgol_filter\<close> raises
  \<^verbatim>\<open>ValueError\<close> unless the polynomial order is below the window length and, in its
  default mode, the window is no longer than \<^verbatim>\<open>x\<close>.
\<close>

record numlib =
  butter :: "nat \<Rightarrow> real \<Rightarrow> real list \<times> real list"
  filtfilt_out :: "real list \<Rightarrow> real list \<Rightarrow> real list \<Rightarrow> real list"
  savgol_out :: "real list \<Rightarrow> nat \<Rightarrow> nat \<Rightarrow> real list"
  polyfit_slope :: "real list \<Rightarrow> real list \<Rightarrow> error + real"

definition filtfilt :: "numlib \<Rightarrow> real list \<Rightarrow> real list \<Rightarrow> real list \<Rightarrow> error + real list" where
  "filtfilt lib b a x =
     (if length x \<le> 3 * max (length a) (length b) then Inl ValueError
      else Inr (filtfilt_out lib b a x))"

definition savgol_filter :: "numlib \<Rightarrow> real list \<Rightarrow> nat \<Rightarrow> nat \<Rightarrow> error + real list" where
  "savgol_filter lib x window_length polyorder =
     (if window_length \<le> polyorder \<or> length x < window_length then Inl ValueError
      else Inr (savgol_out lib x window_length polyorder))"

text \<open>
  What the library is known to do: \<^verbatim>\<open>butter(N, Wn)\<close> returns \<open>N + 1\<close> numerator and
  \<open>N + 1\<close> denominator coefficients, and both filters return as many samples as they
  are given.
\<close>

definition numlib_ok :: "numlib \<Rightarrow> bool" where
  "numlib_ok lib =
     ((\<forall>n wn. length (fst (butter lib n wn)) = n + 1 \<and> length (snd (butter lib n wn)) = n + 1)
      \<and> (\<forall>b a x. length (filtfilt_out lib b a x) = length x)
      \<and> (\<forall>x w p. length (savgol_out lib x w p) = length x))"

subsection \<open>The pipeline object\<close>

record thresholds =
  forward_head_mild :: real
  forward_head_severe :: real
  hunched_shoulders_mild :: real
  hunched_shoulders_severe :: real
  side_lean_mild :: real
  side_lean_severe :: real
  movement_threshold :: real
  stability_threshold :: real

record posture_algorithms =
  sample_rate :: int
  window_size :: int
  dt :: real
  lowpass_cutoff :: real
  order :: nat
  thresholds :: thresholds
  feature_window :: int
  is_trained :: bool

text \<open>
  Python converts an integer to a float by rounding to the nearest float, and raises
  \<^verbatim>\<open>OverflowError\<close> when the result is beyond the largest one,
  \<^verbatim>\<open>2**1024 - 2**971\<close>: that is, for every integer of magnitude
  \<^verbatim>\<open>2**1024 - 2**970\<close> or more.
\<close>

definition float_int_limit :: int where
  "float_int_limit = 2 ^ 1024 - 2 ^ 970"

text \<open>
  \<^verbatim>\<open>PostureAlgorithms.__init__(sample_rate, window_size)\<close>.  The only statement that can
  raise is \<^verbatim>\<open>self.dt = 1.0 / sample_rate\<close>: the division converts the integer to a
  float, which raises \<^verbatim>\<open>OverflowError\<close> for an integer beyond the floats, and then
  raises \<^verbatim>\<open>ZeroDivisionError\<close> for a zero divisor.  There is no other check of the
  arguments.
\<close>

definition init :: "int \<Rightarrow> int \<Rightarrow> error + posture_algorithms" where
  "init sample_rate' window_size' =
     (if float_int_limit \<le> \<bar>sample_rate'\<bar> then Inl OverflowError
      else if sample_rate' = 0 then Inl ZeroDivisionError
      else Inr \<lparr> sample_rate = sample_rate',
                 window_size = window_size',
                 dt = 1 / of_int sample_rate',
                 lowpass_cutoff = 3,
                 order = 4,
                 thresholds = \<lparr> forward_head_mild = 10, forward_head_severe = 20,
                                hunched_shoulders_mild = 15, hunched_shoulders_severe = 25,
                                side_lean_mild = 8, side_lean_severe = 15,
                                movement_threshold = 3, stability_threshold = 2 \<rparr>,
                 feature_window = 30,
                 is_trained = False \<rparr>)"

section \<open>Level 1: preprocessing\<close>

definition accel_columns :: "string list" where
  "accel_columns = [''s1_accel_x'', ''s1_accel_y'', ''s1_accel_z'',
                    ''s2_accel_x'', ''s2_accel_y'', ''s2_accel_z'']"

definition filter_columns :: "string list" where
  "filter_columns = [''s1_accel_x'', ''s1_accel_y'', ''s1_accel_z'',
                     ''s1_gyro_x'', ''s1_gyro_y'', ''s1_gyro_z'',
                     ''s2_accel_x'', ''s2_accel_y'', ''s2_accel_z'',
                     ''s2_gyro_x'', ''s2_gyro_y'', ''s2_gyro_z'']"

definition gyro_columns :: "string list" where
  "gyro_columns = [''s1_gyro_x'', ''s1_gyro_y'', ''s1_gyro_z'',
                   ''s2_gyro_x'', ''s2_gyro_y'', ''s2_gyro_z'']"

text \<open>
  The 3-sigma rule on the values of one channel: the mean and the deviation of the whole
  series, the mask of the values farther than three deviations from the mean, and the
  mean written where the mask holds.  A comparison with not-a-number is false, so a
  series without a deviation is left as it is.
\<close>

definition outlier_mask :: "real list \<Rightarrow> bool list" where
  "outlier_mask xs =
     (case (mean xs, std xs) of
        (Some m, Some sd) \<Rightarrow> map (\<lambda>x. \<bar>x - m\<bar> > 3 * sd) xs
      | _ \<Rightarrow> map (\<lambda>x. False) xs)"

definition suppress_outliers :: "real list \<Rightarrow> real list" where
  "suppress_outliers xs =
     (case mean xs of
        None \<Rightarrow> xs
      | Some m \<Rightarrow> map (\<lambda>(x, out). if out then m else x) (zip xs (outlier_mask xs)))"

definition remove_outliers :: "ref \<Rightarrow> string \<Rightarrow> unit prog" where
  "remove_outliers df_clean col =
     bind (get_float df_clean col) (\<lambda>xs.
       setitem df_clean col (floats (suppress_outliers xs)))"

definition lowpass_column ::
  "numlib \<Rightarrow> posture_algorithms \<Rightarrow> real list \<Rightarrow> real list \<Rightarrow> ref \<Rightarrow> string \<Rightarrow> unit prog" where
  "lowpass_column lib self b a df_clean col =
     bind (len_df df_clean) (\<lambda>n.
       if 2 * order self < n then
         bind (get_float df_clean col) (\<lambda>x.
         bind (lift (filtfilt lib b a x)) (\<lambda>y.
           setitem df_clean col (floats y)))
       else return ())"

definition smooth_column :: "numlib \<Rightarrow> ref \<Rightarrow> string \<Rightarrow> unit prog" where
  "smooth_column lib df_clean col =
     bind (get_float df_clean col) (\<lambda>x.
     bind (len_df df_clean) (\<lambda>n.
     bind (lift (savgol_filter lib x (min 5 n) 2)) (\<lambda>y.
       setitem df_clean col (floats y))))"

definition preprocess_data :: "numlib \<Rightarrow> posture_algorithms \<Rightarrow> ref \<Rightarrow> ref prog" where
  "preprocess_data lib self df =
     bind (df_copy df) (\<lambda>df_clean.
     bind (for_each accel_columns (remove_outliers df_clean)) (\<lambda>_.
     bind (let nyquist = real_of_int (sample_rate self) / 2 in
           if lowpass_cutoff self < nyquist then
             (let (b, a) = butter lib (order self) (lowpass_cutoff self / nyquist)
              in for_each filter_columns (lowpass_column lib self b a df_clean))
           else return ()) (\<lambda>_.
     bind (len_df df_clean) (\<lambda>n.
     bind (if 5 \<le> n then for_each gyro_columns (smooth_column lib df_clean)
           else return ()) (\<lambda>_.
     return df_clean)))))"

section \<open>Level 2: orientation\<close>

text \<open>The vectorised expressions of \<^verbatim>\<open>extract_orientation\<close>, entry by entry.\<close>

definition pitch_column :: "real list \<Rightarrow> real list \<Rightarrow> real list \<Rightarrow> real list" where
  "pitch_column ax ay az =
     map (\<lambda>v. v * 180 / pi)
       (map2 arctan2 (map uminus ax)
          (map sqrt (map2 (+) (map (\<lambda>y. y\<^sup>2) ay) (map (\<lambda>z. z\<^sup>2) az))))"

definition roll_column :: "real list \<Rightarrow> real list \<Rightarrow> real list" where
  "roll_column ay az = map (\<lambda>v. v * 180 / pi) (map2 arctan2 ay az)"

definition magnitude_column :: "real list \<Rightarrow> real list \<Rightarrow> real list" where
  "magnitude_column p r = map sqrt (map2 (+) (map (\<lambda>y. y\<^sup>2) p) (map (\<lambda>z. z\<^sup>2) r))"

definition extract_orientation :: "ref \<Rightarrow> ref prog" where
  "extract_orientation df =
     bind (df_copy df) (\<lambda>df_oriented.
     bind (get_float df_oriented ''s1_accel_x'') (\<lambda>ax1.
     bind (get_float df_oriented ''s1_accel_y'') (\<lambda>ay1.
     bind (get_float df_oriented ''s1_accel_z'') (\<lambda>az1.
     bind (setitem df_oriented ''s1_pitch'' (floats (pitch_column ax1 ay1 az1))) (\<lambda>_.
     bind (get_float df_oriented ''s1_accel_y'') (\<lambda>ay1.
     bind (get_float df_oriented ''s1_accel_z'') (\<lambda>az1.
     bind (setitem df_oriented ''s1_roll'' (floats (roll_column ay1 az1))) (\<lambda>_.
     bind (get_float df_oriented ''s2_accel_x'') (\<lambda>ax2.
     bind (get_float df_oriented ''s2_accel_y'') (\<lambda>ay2.
     bind (get_float df_oriented ''s2_accel_z'') (\<lambda>az2.
     bind (setitem df_oriented ''s2_pitch'' (floats (pitch_column ax2 ay2 az2))) (\<lambda>_.
     bind (get_float df_oriented ''s2_accel_y'') (\<lambda>ay2.
     bind (get_float df_oriented ''s2_accel_z'') (\<lambda>az2.
     bind (setitem df_oriented ''s2_roll'' (floats (roll_column ay2 az2))) (\<lambda>_.
     bind (get_float df_oriented ''s1_pitch'') (\<lambda>p1.
     bind (get_float df_oriented ''s2_pitch'') (\<lambda>p2.
     bind (setitem df_oriented ''spine_pitch_curvature'' (floats (map2 (-) p1 p2))) (\<lambda>_.
     bind (get_float df_oriented ''s1_roll'') (\<lambda>r1.
     bind (get_float df_oriented ''s2_roll'') (\<lambda>r2.
     bind (setitem df_oriented ''spine_roll_curvature'' (floats (map2 (-) r1 r2))) (\<lambda>_.
     bind (get_float df_oriented ''spine_pitch_curvature'') (\<lambda>cp.
     bind (get_float df_oriented ''spine_roll_curvature'') (\<lambda>cr.
     bind (setitem df_oriented ''spine_curvature_magnitude''
             (floats (magnitude_column cp cr))) (\<lambda>_.
     return df_oriented))))))))))))))))))))))))"

section \<open>Level 2: rolling features\<close>

definition feature_columns :: "string list" where
  "feature_columns = [''s1_movement_variability'', ''s2_movement_variability'',
                      ''spine_stability'', ''s1_pitch_velocity'', ''s2_pitch_velocity'',
                      ''s1_pitch_acceleration'', ''s2_pitch_acceleration'',
                      ''s1_cumulative_rotation'', ''s2_cumulative_rotation'']"

text \<open>\<^verbatim>\<open>x.rolling(window=w, min_periods=5).std().fillna(0)\<close>\<close>

definition variability :: "nat \<Rightarrow> real list \<Rightarrow> real list" where
  "variability w xs = fillna0 (rolling_std w 5 (map Some xs))"

text \<open>\<^verbatim>\<open>x.diff().rolling(window=5, min_periods=2).mean().fillna(0)\<close>\<close>

definition velocity :: "real list \<Rightarrow> real list" where
  "velocity xs = fillna0 (rolling_mean 5 2 (diff (map Some xs)))"

text \<open>\<^verbatim>\<open>v.diff().fillna(0)\<close>\<close>

definition acceleration :: "real list \<Rightarrow> real list" where
  "acceleration v = fillna0 (diff (map Some v))"

text \<open>\<^verbatim>\<open>np.cumsum(np.abs(gx) + np.abs(gy) + np.abs(gz)) * self.dt\<close>\<close>

definition cumulative_rotation :: "real \<Rightarrow> real list \<Rightarrow> real list \<Rightarrow> real list \<Rightarrow> real list" where
  "cumulative_rotation dt' gx gy gz =
     map (\<lambda>c. c * dt')
       (cumsum (map2 (+) (map2 (+) (map abs gx) (map abs gy)) (map abs gz)))"

definition extract_advanced_features :: "posture_algorithms \<Rightarrow> ref \<Rightarrow> ref prog" where
  "extract_advanced_features self df =
     bind (df_copy df) (\<lambda>df_features.
     bind (len_df df) (\<lambda>n.
     let window_samples = min (feature_window self * sample_rate self) (int n) in
     if 10 \<le> window_samples then
       bind (get_float df ''s1_pitch'') (\<lambda>p1.
       bind (setitem df_features ''s1_movement_variability''
               (floats (variability (nat window_samples) p1))) (\<lambda>_.
       bind (get_float df ''s2_pitch'') (\<lambda>p2.
       bind (setitem df_features ''s2_movement_variability''
               (floats (variability (nat window_samples) p2))) (\<lambda>_.
       bind (get_float df ''spine_curvature_magnitude'') (\<lambda>m.
       bind (setitem df_features ''spine_stability''
               (floats (variability (nat window_samples) m))) (\<lambda>_.
       bind (get_float df ''s1_pitch'') (\<lambda>p1.
       bind (setitem df_features ''s1_pitch_velocity'' (floats (velocity p1))) (\<lambda>_.
       bind (get_float df ''s2_pitch'') (\<lambda>p2.
       bind (setitem df_features ''s2_pitch_velocity'' (floats (velocity p2))) (\<lambda>_.
       bind (get_float df_features ''s1_pitch_velocity'') (\<lambda>v1.
       bind (setitem df_features ''s1_pitch_acceleration'' (floats (acceleration v1))) (\<lambda>_.
       bind (get_float df_features ''s2_pitch_velocity'') (\<lambda>v2.
       bind (setitem df_features ''s2_pitch_acceleration'' (floats (acceleration v2))) (\<lambda>_.
       bind (get_float df ''s1_gyro_x'') (\<lambda>gx1.
       bind (get_float df ''s1_gyro_y'') (\<lambda>gy1.
       bind (get_float df ''s1_gyro_z'') (\<lambda>gz1.
       bind (setitem df_features ''s1_cumulative_rotation''
               (floats (cumulative_rotation (dt self) gx1 gy1 gz1))) (\<lambda>_.
       bind (get_float df ''s2_gyro_x'') (\<lambda>gx2.
       bind (get_float df ''s2_gyro_y'') (\<lambda>gy2.
       bind (get_float df ''s2_gyro_z'') (\<lambda>gz2.
       bind (setitem df_features ''s2_cumulative_rotation''
               (floats (cumulative_rotation (dt self) gx2 gy2 gz2))) (\<lambda>_.
       return df_features))))))))))))))))))))))
     else
       bind (for_each feature_columns (\<lambda>col. setitem_scalar df_features col (I 0))) (\<lambda>_.
       return df_features)))"

section \<open>Level 3: rule-based classification\<close>

text \<open>
  The four criteria of the loop body of \<^verbatim>\<open>classify_posture_realtime\<close>.  Each takes
  the value it tests and the list of issues and the severity found so far, and returns
  them with what the criterion appends and adds.
\<close>

definition forward_head_rule :: "thresholds \<Rightarrow> real \<Rightarrow> string list \<times> int \<Rightarrow> string list \<times> int" where
  "forward_head_rule th s1_pitch = (\<lambda>(posture_issues, severity).
     if forward_head_severe th < s1_pitch
       then (posture_issues @ [''severe_forward_head''], severity + 3)
     else if forward_head_mild th < s1_pitch
       then (posture_issues @ [''mild_forward_head''], severity + 1)
     else (posture_issues, severity))"

definition hunched_rule :: "thresholds \<Rightarrow> real \<Rightarrow> string list \<times> int \<Rightarrow> string list \<times> int" where
  "hunched_rule th pitch_curvature = (\<lambda>(posture_issues, severity).
     if hunched_shoulders_severe th < pitch_curvature
       then (posture_issues @ [''severe_hunched''], severity + 3)
     else if hunched_shoulders_mild th < pitch_curvature
       then (posture_issues @ [''mild_hunched''], severity + 1)
     else (posture_issues, severity))"

definition side_lean_rule :: "thresholds \<Rightarrow> real \<Rightarrow> string list \<times> int \<Rightarrow> string list \<times> int" where
  "side_lean_rule th roll_curvature = (\<lambda>(posture_issues, severity).
     if side_lean_severe th < \<bar>roll_curvature\<bar>
       then (posture_issues @ [''severe_side_lean''], severity + 2)
     else if side_lean_mild th < \<bar>roll_curvature\<bar>
       then (posture_issues @ [''mild_side_lean''], severity + 1)
     else (posture_issues, severity))"

definition movement_rule :: "thresholds \<Rightarrow> real \<Rightarrow> string list \<times> int \<Rightarrow> string list \<times> int" where
  "movement_rule th stability = (\<lambda>(posture_issues, severity).
     if movement_threshold th < stability
       then (posture_issues @ [''excessive_movement''], severity)
     else if stability < stability_threshold th
       then (posture_issues @ [''static_posture''], severity)
     else (posture_issues, severity))"

text \<open>
  The end of the loop body: the label and the confidence of the row \<open>i\<close> from the list
  of issues, and its severity, capped.
\<close>

definition write_row :: "pandas \<Rightarrow> ref \<Rightarrow> nat \<Rightarrow> string list \<times> int \<Rightarrow> unit prog" where
  "write_row pd df_classified i = (\<lambda>(posture_issues, severity).
     bind (if posture_issues = [] then
             bind (iloc_set pd df_classified i ''posture_label'' (S ''good_posture'')) (\<lambda>_.
               iloc_set pd df_classified i ''confidence'' (F (9 / 10)))
           else if length posture_issues = 1 then
             bind (iloc_set pd df_classified i ''posture_label'' (S (posture_issues ! 0))) (\<lambda>_.
               iloc_set pd df_classified i ''confidence'' (F (8 / 10)))
           else
             bind (iloc_set pd df_classified i ''posture_label'' (S ''multiple_issues'')) (\<lambda>_.
               iloc_set pd df_classified i ''confidence'' (F (7 / 10)))) (\<lambda>_.
     iloc_set pd df_classified i ''severity_score'' (I (min severity 10))))"

text \<open>
  One pass of the loop body, for the row \<open>i\<close>: the criteria in their order, starting
  from no issue and severity 0, the movement criterion only when the frame has the
  column \<^verbatim>\<open>spine_stability\<close>.
\<close>

definition classify_row :: "pandas \<Rightarrow> posture_algorithms \<Rightarrow> ref \<Rightarrow> nat \<Rightarrow> unit prog" where
  "classify_row pd self df_classified i =
     (let th = thresholds self in
      bind (iloc_float df_classified i ''s1_pitch'') (\<lambda>s1_pitch.
      bind (iloc_float df_classified i ''spine_pitch_curvature'') (\<lambda>pitch_curvature.
      bind (iloc_float df_classified i ''spine_roll_curvature'') (\<lambda>roll_curvature.
      bind (columns_contains df_classified ''spine_stability'') (\<lambda>has_stability.
      bind (if has_stability then
              bind (iloc_float df_classified i ''spine_stability'') (\<lambda>stability.
                return (movement_rule th stability
                          (side_lean_rule th roll_curvature
                             (hunched_rule th pitch_curvature
                                (forward_head_rule th s1_pitch ([], 0))))))
            else
              return (side_lean_rule th roll_curvature
                        (hunched_rule th pitch_curvature
                           (forward_head_rule th s1_pitch ([], 0)))))
        (write_row pd df_classified i))))))"

definition classify_posture_realtime ::
  "pandas \<Rightarrow> posture_algorithms \<Rightarrow> ref \<Rightarrow> ref prog" where
  "classify_posture_realtime pd self df =
     bind (df_copy df) (\<lambda>df_classified.
     bind (setitem_scalar df_classified ''posture_label'' (S ''unknown'')) (\<lambda>_.
     bind (setitem_scalar df_classified ''severity_score'' (I 0)) (\<lambda>_.
     bind (setitem_scalar df_classified ''confidence'' (I 0)) (\<lambda>_.
     bind (len_df df_classified) (\<lambda>n.
     bind (for_each [0..<n] (classify_row pd self df_classified)) (\<lambda>_.
     return df_classified))))))"

text \<open>
  The rule table in the words of the specification: each criterion that fires
  contributes one named issue and a severity delta.
\<close>

definition spec_forward_head :: "thresholds \<Rightarrow> real \<Rightarrow> (string \<times> int) list" where
  "spec_forward_head th pitch =
     (if forward_head_severe th < pitch then [(''severe_forward_head'', 3)]
      else if forward_head_mild th < pitch then [(''mild_forward_head'', 1)] else [])"

definition spec_hunched :: "thresholds \<Rightarrow> real \<Rightarrow> (string \<times> int) list" where
  "spec_hunched th curvature =
     (if hunched_shoulders_severe th < curvature then [(''severe_hunched'', 3)]
      else if hunched_shoulders_mild th < curvature then [(''mild_hunched'', 1)] else [])"

definition spec_side_lean :: "thresholds \<Rightarrow> real \<Rightarrow> (string \<times> int) list" where
  "spec_side_lean th roll = 
     (if side_lean_severe th < \<bar>roll\<bar> then [(''severe_side_lean'', 2)]
      else if side_lean_mild th < \<bar>roll\<bar> then [(''mild_side_lean'', 1)] else [])"

definition spec_movement :: "thresholds \<Rightarrow> real option \<Rightarrow> (string \<times> int) list" where
  "spec_movement th stability =
     (case stability of
        None \<Rightarrow> []
      | Some st \<Rightarrow> if movement_threshold th < st then [(''excessive_movement'', 0)]
                   else if st < stability_threshold th then [(''static_posture'', 0)] else [])"

definition spec_issues ::
  "thresholds \<Rightarrow> real \<Rightarrow> real \<Rightarrow> real \<Rightarrow> real option \<Rightarrow> (string \<times> int) list" where
  "spec_issues th pitch curvature roll stability =
     spec_forward_head th pitch @ spec_hunched th curvature @ spec_side_lean th roll
       @ spec_movement th stability"

definition spec_severity :: "(string \<times> int) list \<Rightarrow> int" where
  "spec_severity issues = min (sum_list (map snd issues)) 10"

definition spec_label :: "(string \<times> int) list \<Rightarrow> string" where
  "spec_label issues =
     (if length issues = 0 then ''good_posture''
      else if length issues = 1 then fst (hd issues)
      else ''multiple_issues'')"

definition spec_confidence :: "(string \<times> int) list \<Rightarrow> real" where
  "spec_confidence issues =
     (if length issues = 0 then 9 / 10 else if length issues = 1 then 8 / 10 else 7 / 10)"

text \<open>
  The issues of the row \<open>i\<close> of a frame whose sensor-1 pitch, pitch curvature and roll
  curvature columns hold \<open>p\<close>, \<open>pc\<close> and \<open>rc\<close>, and whose stability column, when there
  is one, holds \<open>st\<close>.
\<close>

definition row_issues ::
  "thresholds \<Rightarrow> real list \<Rightarrow> real list \<Rightarrow> real list \<Rightarrow> real list option \<Rightarrow> nat
     \<Rightarrow> (string \<times> int) list" where
  "row_issues th p pc rc st i =
     spec_issues th (p ! i) (pc ! i) (rc ! i) (map_option (\<lambda>xs. xs ! i) st)"

section \<open>Levels 4 and 5: pattern analysis and recommendations\<close>

text \<open>
  The advice strings of the code, one constructor for each string literal, in the order
  of their appearance in \<^verbatim>\<open>analyze_patterns\<close> and \<^verbatim>\<open>generate_recommendations\<close>.
\<close>

datatype recommendation =
    CollectMoreData
  | ContinueMonitoring
  | ForwardHeadAlert
  | ChinTucks
  | ForwardHeadTrendAlert
  | HunchedShouldersDetected
  | DoorwayChestStretch
  | SideLeanDetected
  | SidePlanks
  | MovementBreak
  | HourlyReminders
  | DiscomfortCheck
  | ErgonomicSetupCheck
  | ExcellentWork
  | GoodProgress
  | ImprovementNeeded
  | PostureImproving
  | PostureDeclining

text \<open>
  The dictionary that \<^verbatim>\<open>analyze_patterns\<close> returns: a key that one of its two paths
  does not set is \<open>None\<close>.  The time period is kept as the number that the code
  formats into a string.
\<close>

record pattern_report =
  pattern_analysis :: "string option"
  time_period :: "real option"
  total_samples :: "nat option"
  posture_distribution :: "(cell \<times> real) list option"
  trends :: "(string \<times> string) list"
  recommendations :: "recommendation list"

text \<open>\<^verbatim>\<open>posture_dist.get(key, 0)\<close>\<close>

definition dist_get :: "(cell \<times> real) list \<Rightarrow> string \<Rightarrow> real" where
  "dist_get posture_dist key = (case map_of posture_dist (S key) of None \<Rightarrow> 0 | Some v \<Rightarrow> v)"

definition generate_recommendations ::
  "(cell \<times> real) list option \<Rightarrow> (string \<times> string) list \<Rightarrow> recommendation list" where
  "generate_recommendations distribution trends' =
     (case distribution of
        None \<Rightarrow> [ContinueMonitoring]
      | Some posture_dist \<Rightarrow>
          (let fh_issues = dist_get posture_dist ''severe_forward_head''
                           + dist_get posture_dist ''mild_forward_head'';
               r1 = (if 30 < fh_issues then
                       [ForwardHeadAlert, ChinTucks] @
                       (if map_of trends' ''forward_head_trend'' = Some ''worsening''
                        then [ForwardHeadTrendAlert] else [])
                     else []);
               hunched_issues = dist_get posture_dist ''severe_hunched''
                                + dist_get posture_dist ''mild_hunched'';
               r2 = (if 25 < hunched_issues
                     then [HunchedShouldersDetected, DoorwayChestStretch] else []);
               side_issues = dist_get posture_dist ''severe_side_lean''
                             + dist_get posture_dist ''mild_side_lean'';
               r3 = (if 20 < side_issues then [SideLeanDetected, SidePlanks] else []);
               movement_pattern = (case map_of trends' ''movement_pattern'' of
                                     None \<Rightarrow> ''unknown'' | Some v \<Rightarrow> v);
               r4 = (if movement_pattern = ''too_static''
                       then [MovementBreak, HourlyReminders]
                     else if movement_pattern = ''highly_dynamic''
                       then [DiscomfortCheck, ErgonomicSetupCheck]
                     else []);
               good_posture = dist_get posture_dist ''good_posture'';
               r5 = (if 70 < good_posture then [ExcellentWork]
                     else if 50 < good_posture then [GoodProgress]
                     else if good_posture < 30 then [ImprovementNeeded]
                     else []);
               r6 = (if map_of trends' ''spine_curvature_trend'' = Some ''improving''
                       then [PostureImproving]
                     else if map_of trends' ''spine_curvature_trend'' = Some ''worsening''
                       then [PostureDeclining]
                     else [])
           in take 6 (r1 @ r2 @ r3 @ r4 @ r5 @ r6)))"

text \<open>
  \<^verbatim>\<open>df.tail(n)\<close>: the last \<open>n\<close> rows, and for a negative \<open>n\<close> all rows but the first
  \<open>-n\<close>.
\<close>

definition tail :: "int \<Rightarrow> dataframe \<Rightarrow> dataframe" where
  "tail n d =
     (let k = (if 0 \<le> n then nrows d - min (nat n) (nrows d) else min (nat (- n)) (nrows d))
      in \<lparr> nrows = nrows d - k, cols = map (\<lambda>(name, c). (name, drop k c)) (cols d) \<rparr>)"

text \<open>\<^verbatim>\<open>Series.value_counts()\<close>, read only by key.\<close>

definition value_counts :: "cell list \<Rightarrow> (cell \<times> nat) list" where
  "value_counts xs = map (\<lambda>v. (v, count_list xs v)) (remdups xs)"

definition trend_label :: "real \<Rightarrow> string" where
  "trend_label slope =
     (if slope < - (1 / 100) then ''improving''
      else if 1 / 100 < slope then ''worsening'' else ''stable'')"

text \<open>
  \<^verbatim>\<open>np.polyfit(range(len(recent_data)), recent_data[name], 1)[0]\<close> where the column
  exists.
\<close>

definition column_trend ::
  "numlib \<Rightarrow> dataframe \<Rightarrow> string \<Rightarrow> string \<Rightarrow> error + (string \<times> string) list" where
  "column_trend lib recent_data name key =
     (case map_of (cols recent_data) name of
        None \<Rightarrow> Inr []
      | Some c \<Rightarrow>
          (case as_float c of
             Inl e \<Rightarrow> Inl e
           | Inr ys \<Rightarrow>
               (case polyfit_slope lib (map real [0..<nrows recent_data]) ys of
                  Inl e \<Rightarrow> Inl e
                | Inr slope \<Rightarrow> Inr [(key, trend_label slope)])))"

definition movement_trend :: "dataframe \<Rightarrow> error + (string \<times> string) list" where
  "movement_trend recent_data =
     (case map_of (cols recent_data) ''spine_stability'' of
        None \<Rightarrow> Inr []
      | Some c \<Rightarrow>
          (case as_float c of
             Inl e \<Rightarrow> Inl e
           | Inr ys \<Rightarrow>
               Inr [(''movement_pattern'',
                     (case mean ys of
                        None \<Rightarrow> ''optimal''
                      | Some avg_movement \<Rightarrow>
                          if 4 < avg_movement then ''highly_dynamic''
                          else if 2 < avg_movement then ''moderately_active''
                          else if avg_movement < 1 / 2 then ''too_static''
                          else ''optimal''))]))"

text \<open>
  \<^verbatim>\<open>analyze_patterns\<close> reads its data frame and changes no object that the caller can
  reach, so it is a function of the frame's value.
\<close>

definition analyze_patterns ::
  "numlib \<Rightarrow> posture_algorithms \<Rightarrow> dataframe \<Rightarrow> int \<Rightarrow> error + pattern_report" where
  "analyze_patterns lib self df analysis_window_minutes =
     (if int (nrows df) < sample_rate self * 60 then
        Inr \<lparr> pattern_analysis = Some ''insufficient_data'',
              time_period = None,
              total_samples = None,
              posture_distribution = None,
              trends = [],
              recommendations = [CollectMoreData] \<rparr>
      else
        (let analysis_samples =
               min (analysis_window_minutes * 60 * sample_rate self) (int (nrows df));
             recent_data = tail analysis_samples df
         in if sample_rate self = 0 then Inl ZeroDivisionError
            else
              (let period = real (nrows recent_data) / real_of_int (sample_rate self) / 60;
                   distribution =
                     (case map_of (cols recent_data) ''posture_label'' of
                        None \<Rightarrow> None
                      | Some labels \<Rightarrow>
                          Some (map (\<lambda>(posture, count).
                                   (posture, real count / real (nrows recent_data) * 100))
                                 (value_counts labels)))
               in case column_trend lib recent_data ''s1_pitch'' ''forward_head_trend'' of
                    Inl e \<Rightarrow> Inl e
                  | Inr t1 \<Rightarrow>
                 (case column_trend lib recent_data ''spine_curvature_magnitude''
                         ''spine_curvature_trend'' of
                    Inl e \<Rightarrow> Inl e
                  | Inr t2 \<Rightarrow>
                 (case movement_trend recent_data of
                    Inl e \<Rightarrow> Inl e
                  | Inr t3 \<Rightarrow>
                      Inr \<lparr> pattern_analysis = None,
                            time_period = Some period,
                            total_samples = Some (nrows recent_data),
                            posture_distribution = distribution,
                            trends = t1 @ t2 @ t3,
                            recommendations =
                              generate_recommendations distribution (t1 @ t2 @ t3) \<rparr>)))))"

section \<open>Properties of statements and frames\<close>

text \<open>
  \<open>preserves r m\<close>: whatever the store, running \<open>m\<close> keeps every object allocated so far
  and leaves the object at \<open>r\<close> as it is, also when \<open>m\<close> raises.
\<close>

definition preserves :: "ref \<Rightarrow> 'a prog \<Rightarrow> bool" where
  "preserves r m =
     (\<forall>s. r < length s \<longrightarrow> length s \<le> length (snd (m s)) \<and> snd (m s) ! r = s ! r)"

text \<open>
  \<open>sensor_frame n d\<close>: the frame has \<open>n\<close> rows and the twelve accelerometer and
  gyroscope channels, each a column of \<open>n\<close> numbers.
\<close>

definition sensor_frame :: "nat \<Rightarrow> dataframe \<Rightarrow> bool" where
  "sensor_frame n d = (nrows d = n \<and> (\<forall>name\<in>set filter_columns. num_col d name \<noteq> None))"

text \<open>\<open>returns m c\<close>: when \<open>m\<close> returns, it returns \<open>c\<close>.\<close>

definition returns :: "'a prog \<Rightarrow> 'a \<Rightarrow> bool" where
  "returns m c = (\<forall>s x s'. m s = (Inr x, s') \<longrightarrow> x = c)"

section \<open>Example inputs\<close>

text \<open>The pipeline object of \<^verbatim>\<open>PostureAlgorithms()\<close>, with its default arguments.\<close>

definition default_self :: posture_algorithms where
  "default_self =
     \<lparr> sample_rate = 10, window_size = 50, dt = 1 / 10, lowpass_cutoff = 3, order = 4,
       thresholds = \<lparr> forward_head_mild = 10, forward_head_severe = 20,
                      hunched_shoulders_mild = 15, hunched_shoulders_severe = 25,
                      side_lean_mild = 8, side_lean_severe = 15,
                      movement_threshold = 3, stability_threshold = 2 \<rparr>,
       feature_window = 30, is_trained = False \<rparr>"

text \<open>A library whose filters return their input and whose fit returns the slope 0.\<close>

definition plain_numlib :: numlib where
  "plain_numlib =
     \<lparr> butter = (\<lambda>n wn. (replicate (n + 1) 1, replicate (n + 1) 1)),
       filtfilt_out = (\<lambda>b a x. x),
       savgol_out = (\<lambda>x w p. x),
       polyfit_slope = (\<lambda>xs ys. Inr 0) \<rparr>"

text \<open>One sample with both sensors upright: the acceleration is gravity along z.\<close>

definition upright_frame :: dataframe where
  "upright_frame =
     \<lparr> nrows = 1,
       cols = [(''s1_accel_x'', [F 0]), (''s1_accel_y'', [F 0]), (''s1_accel_z'', [F (98 / 10)]),
               (''s2_accel_x'', [F 0]), (''s2_accel_y'', [F 0]), (''s2_accel_z'', [F (98 / 10)])] \<rparr>"

text \<open>
  Two samples after feature extraction: the first leans the head forward by 25 degrees
  and moves moderately, the second leans sideways by 9 degrees and hardly moves.
\<close>

definition leaning_frame :: dataframe where
  "leaning_frame =
     \<lparr> nrows = 2,
       cols = [(''s1_pitch'', [F 25, F 5]),
               (''spine_pitch_curvature'', [F 0, F 0]),
               (''spine_roll_curvature'', [F 0, F (- 9)]),
               (''spine_stability'', [F (5 / 2), F 1])] \<rparr>"

text \<open>The same two samples without the stability column.\<close>

definition leaning_frame_no_stability :: dataframe where
  "leaning_frame_no_stability =
     \<lparr> nrows = 2,
       cols = [(''s1_pitch'', [F 25, F 5]),
               (''spine_pitch_curvature'', [F 0, F 0]),
               (''spine_roll_curvature'', [F 0, F (- 9)])] \<rparr>"

text \<open>
  Ten samples after orientation extraction: the sensor-1 pitch rises by one degree per
  sample, and sensor 1 turns about its x axis at a constant rate.
\<close>

definition ramp_frame :: dataframe where
  "ramp_frame =
     \<lparr> nrows = 10,
       cols = [(''s1_pitch'', [F 0, F 1, F 2, F 3, F 4, F 5, F 6, F 7, F 8, F 9]),
               (''s2_pitch'', [F 0, F 0, F 0, F 0, F 0, F 0, F 0, F 0, F 0, F 0]),
               (''spine_curvature_magnitude'',
                  [F 0, F 1, F 2, F 3, F 4, F 5, F 6, F 7, F 8, F 9]),
               (''s1_gyro_x'', [F 1, F 1, F 1, F 1, F 1, F 1, F 1, F 1, F 1, F 1]),
               (''s1_gyro_y'', [F 0, F 0, F 0, F 0, F 0, F 0, F 0, F 0, F 0, F 0]),
               (''s1_gyro_z'', [F 0, F 0, F 0, F 0, F 0, F 0, F 0, F 0, F 0, F 0]),
               (''s2_gyro_x'', [F 0, F 0, F 0, F 0, F 0, F 0, F 0, F 0, F 0, F 0]),
               (''s2_gyro_y'', [F 0, F 0, F 0, F 0, F 0, F 0, F 0, F 0, F 0, F 0]),
               (''s2_gyro_z'', [F 0, F 0, F 0, F 0, F 0, F 0, F 0, F 0, F 0, F 0])] \<rparr>"

text \<open>The first two of these samples.\<close>

definition short_ramp_frame :: dataframe where
  "short_ramp_frame =
     \<lparr> nrows = 2,
       cols = [(''s1_pitch'', [F 0, F 1]),
               (''s2_pitch'', [F 0, F 0]),
               (''spine_curvature_magnitude'', [F 0, F 1]),
               (''s1_gyro_x'', [F 1, F 1]),
               (''s1_gyro_y'', [F 0, F 0]),
               (''s1_gyro_z'', [F 0, F 0]),
               (''s2_gyro_x'', [F 0, F 0]),
               (''s2_gyro_y'', [F 0, F 0]),
               (''s2_gyro_z'', [F 0, F 0])] \<rparr>"

text \<open>Nine samples of the two sensors at rest, upright.\<close>

definition nine_sample_frame :: dataframe where
  "nine_sample_frame =
     \<lparr> nrows = 9,
       cols = map (\<lambda>name. (name, replicate 9 (F 0)))
                [''s1_accel_x'', ''s1_accel_y''] @
              [(''s1_accel_z'', replicate 9 (F (98 / 10)))] @
              map (\<lambda>name. (name, replicate 9 (F 0)))
                [''s1_gyro_x'', ''s1_gyro_y'', ''s1_gyro_z'', ''s2_accel_x'', ''s2_accel_y''] @
              [(''s2_accel_z'', replicate 9 (F (98 / 10)))] @
              map (\<lambda>name. (name, replicate 9 (F 0)))
                [''s2_gyro_x'', ''s2_gyro_y'', ''s2_gyro_z''] \<rparr>"

section \<open>Running statements on the store\<close>

lemma bind_apply:
  "bind m f s = (case m s of (Inl e, s') \<Rightarrow> (Inl e, s') | (Inr x, s') \<Rightarrow> f x s')"
  by (simp add: bind_def)

lemma bind_Inr: "m s = (Inr x, s') \<Longrightarrow> bind m f s = f x s'"
  by (simp add: bind_def)

lemma bind_Inl: "m s = (Inl e, s') \<Longrightarrow> bind m f s = (Inl e, s')"
  by (simp add: bind_def)

lemma return_apply: "return x s = (Inr x, s)"
  by (simp add: return_def)

lemma raise_apply: "raise e s = (Inl e, s)"
  by (simp add: raise_def)

lemma lift_apply: "lift r s = (r, s)"
  by (simp add: lift_def)

lemma for_each_append:
  "for_each (xs @ ys) f = bind (for_each xs f) (\<lambda>_. for_each ys f)"
proof (induction xs)
  case Nil
  show ?case by (simp add: bind_def return_def)
next
  case (Cons x xs)
  then show ?case
    by (simp add: bind_def fun_eq_iff split: prod.splits sum.splits)
qed

subsection \<open>Objects that a statement leaves alone\<close>

lemma preserves_return: "preserves r (return x)"
  by (simp add: preserves_def return_def)

lemma preserves_raise: "preserves r (raise e)"
  by (simp add: preserves_def raise_def)

lemma preserves_lift: "preserves r (lift x)"
  by (simp add: preserves_def lift_def)

lemma preserves_read_df: "preserves r (read_df r')"
  by (simp add: preserves_def read_df_def)

lemma preserves_write_df: "r \<noteq> r' \<Longrightarrow> preserves r (write_df r' d)"
  by (simp add: preserves_def write_df_def)

lemma preserves_bind:
  assumes m: "preserves r m" and f: "\<And>x. preserves r (f x)"
  shows "preserves r (bind m f)"
  unfolding preserves_def
proof (intro allI impI)
  fix s :: store
  assume r: "r < length s"
  obtain res s' where ms: "m s = (res, s')" by (cases "m s")
  from m r ms have s': "length s \<le> length s'" "s' ! r = s ! r"
    by (auto simp: preserves_def)
  show "length s \<le> length (snd (bind m f s)) \<and> snd (bind m f s) ! r = s ! r"
  proof (cases res)
    case (Inl e)
    with ms s' show ?thesis by (simp add: bind_def)
  next
    case (Inr x)
    from s' r have "r < length s'" by simp
    with f [of x] have "length s' \<le> length (snd (f x s')) \<and> snd (f x s') ! r = s' ! r"
      by (simp add: preserves_def)
    with ms Inr s' show ?thesis by (simp add: bind_def)
  qed
qed

lemma preserves_if:
  "preserves r m \<Longrightarrow> preserves r m' \<Longrightarrow> preserves r (if b then m else m')"
  by simp

lemma preserves_for_each:
  "(\<And>x. preserves r (f x)) \<Longrightarrow> preserves r (for_each xs f)"
  by (induction xs) (simp_all add: preserves_return preserves_bind)

lemma preserves_len_df: "preserves r (len_df r')"
  by (simp add: len_df_def preserves_bind preserves_read_df preserves_return)

lemma preserves_columns_contains: "preserves r (columns_contains r' name)"
  by (simp add: columns_contains_def preserves_bind preserves_read_df preserves_return)

lemma preserves_getitem: "preserves r (getitem r' name)"
  by (auto simp: getitem_def preserves_raise preserves_return split: option.splits
      intro!: preserves_bind preserves_read_df)

lemma preserves_get_float: "preserves r (get_float r' name)"
  by (simp add: get_float_def preserves_bind preserves_getitem preserves_lift)

lemma preserves_iloc_float: "preserves r (iloc_float r' i name)"
  by (auto simp: iloc_float_def preserves_raise preserves_return split: option.splits
      intro!: preserves_bind preserves_read_df)

lemma preserves_setitem: "r \<noteq> r' \<Longrightarrow> preserves r (setitem r' name c)"
  by (auto simp: setitem_def preserves_raise preserves_write_df
      intro!: preserves_bind preserves_read_df)

lemma preserves_setitem_scalar: "r \<noteq> r' \<Longrightarrow> preserves r (setitem_scalar r' name v)"
  by (auto simp: setitem_scalar_def preserves_write_df
      intro!: preserves_bind preserves_read_df)

lemma preserves_iloc_set: "r \<noteq> r' \<Longrightarrow> preserves r (iloc_set pd r' i name v)"
  by (auto simp: iloc_set_def preserves_raise preserves_write_df preserves_lift
      split: option.splits intro!: preserves_bind preserves_read_df)

text \<open>
  A copy is a new object: the statements that follow may change it freely, as long as
  they leave every other object alone.
\<close>

lemma preserves_copy:
  assumes f: "\<And>c. c \<noteq> r \<Longrightarrow> preserves r (f c)"
  shows "preserves r (bind (df_copy r') f)"
  unfolding preserves_def
proof (intro allI impI)
  fix s :: store
  assume r: "r < length s"
  show "length s \<le> length (snd (bind (df_copy r') f s)) \<and>
        snd (bind (df_copy r') f s) ! r = s ! r"
  proof (cases "r' < length s")
    case False
    then show ?thesis by (simp add: bind_def df_copy_def)
  next
    case True
    from r have "length s \<noteq> r" by simp
    from f [OF this] have "preserves r (f (length s))" .
    moreover from r have "r < length (s @ [s ! r'])" by simp
    ultimately
    have "length (s @ [s ! r']) \<le> length (snd (f (length s) (s @ [s ! r']))) \<and>
          snd (f (length s) (s @ [s ! r'])) ! r = (s @ [s ! r']) ! r"
      unfolding preserves_def by blast
    with True r show ?thesis by (simp add: bind_def df_copy_def nth_append)
  qed
qed

subsection \<open>Statements on a fresh copy\<close>

text \<open>
  After \<^verbatim>\<open>df.copy()\<close> the store is \<open>s @ [d]\<close> and the copy is the object
  \<open>length s\<close>; the lemmas run the statements of the stages on a store of that shape.
\<close>

lemma read_df_top: "read_df (length s) (s @ [d]) = (Inr d, s @ [d])"
  by (simp add: read_df_def)

lemma read_df_low: "r < length s \<Longrightarrow> read_df r (s @ [d]) = (Inr (s ! r), s @ [d])"
  by (simp add: read_df_def nth_append)

lemma write_df_top: "write_df (length s) d' (s @ [d]) = (Inr (), s @ [d'])"
  by (simp add: write_df_def)

lemma df_copy_apply: "r < length s \<Longrightarrow> df_copy r s = (Inr (length s), s @ [s ! r])"
  by (simp add: df_copy_def)

lemma num_col_length: "num_col d name = Some xs \<Longrightarrow> length xs = nrows d"
  by (auto simp: num_col_def split: option.splits if_splits)

lemma num_col_as_float:
  "num_col d name = Some xs \<Longrightarrow> \<exists>c. map_of (cols d) name = Some c \<and> as_float c = Inr xs"
  by (auto simp: num_col_def as_float_def split: option.splits if_splits)

lemma len_df_top: "len_df (length s) (s @ [d]) = (Inr (nrows d), s @ [d])"
  by (simp add: len_df_def bind_def read_df_top return_def)

lemma len_df_low: "r < length s \<Longrightarrow> len_df r (s @ [d]) = (Inr (nrows (s ! r)), s @ [d])"
  by (simp add: len_df_def bind_def read_df_low return_def)

lemma get_float_top:
  "num_col d name = Some xs \<Longrightarrow> get_float (length s) name (s @ [d]) = (Inr xs, s @ [d])"
  by (auto dest!: num_col_as_float
      simp: get_float_def getitem_def bind_def read_df_top return_def lift_def)

lemma get_float_low:
  "r < length s \<Longrightarrow> num_col (s ! r) name = Some xs \<Longrightarrow>
   get_float r name (s @ [d]) = (Inr xs, s @ [d])"
  by (auto dest!: num_col_as_float
      simp: get_float_def getitem_def bind_def read_df_low return_def lift_def)

lemma setitem_top:
  "length c = nrows d \<Longrightarrow>
   setitem (length s) name c (s @ [d]) = (Inr (), s @ [set_col name c d])"
  by (simp add: setitem_def bind_def read_df_top write_df_top)

lemma setitem_scalar_top:
  "setitem_scalar (length s) name v (s @ [d]) =
     (Inr (), s @ [set_col name (replicate (nrows d) v) d])"
  by (simp add: setitem_scalar_def bind_def read_df_top write_df_top)

lemma nrows_set_col: "nrows (set_col name c d) = nrows d"
  by (simp add: set_col_def)

lemma map_of_set_col:
  "map_of (cols (set_col name c d)) name' = (if name' = name then Some c else map_of (cols d) name')"
  by (simp add: set_col_def update_conv')

lemma num_col_set_col_floats:
  "num_col (set_col name (floats ys) d) name' =
     (if name' = name then (if length ys = nrows d then Some ys else None)
      else num_col d name')"
  by (simp add: num_col_def map_of_set_col nrows_set_col list_all_iff comp_def floats_def
      split: option.splits)

lemma length_floats: "length (floats ys) = length ys"
  by (simp add: floats_def)

lemma has_col_set_col:
  "has_col (set_col name c d) name' = (name' = name \<or> has_col d name')"
  by (simp add: has_col_def map_of_set_col)


section \<open>Construction\<close>

lemma float_int_limit_bounds: "2 ^ 1023 \<le> float_int_limit" "float_int_limit < 2 ^ 1024"
proof -
  have "(2::int) ^ 970 \<le> 2 ^ 1023" by (rule power_increasing) simp_all
  moreover have "(2::int) ^ 1024 = 2 * 2 ^ 1023" by (simp add: power_Suc [symmetric])
  ultimately show "2 ^ 1023 \<le> float_int_limit" by (simp add: float_int_limit_def)
  have "(0::int) < 2 ^ 970" by simp
  then show "float_int_limit < 2 ^ 1024" by (simp add: float_int_limit_def)
qed

lemma small_rate_below_limit: "\<bar>sr\<bar> \<le> 1000 \<Longrightarrow> \<bar>sr\<bar> < float_int_limit"
proof -
  assume "\<bar>sr\<bar> \<le> 1000"
  moreover have "(1000::int) < 2 ^ 10" by simp
  moreover have "(2::int) ^ 10 \<le> 2 ^ 1023" by (rule power_increasing) simp_all
  ultimately show ?thesis using float_int_limit_bounds(1) by linarith
qed

lemma init_fields:
  "init sr ws = Inr self \<Longrightarrow>
   sample_rate self = sr \<and> dt self = 1 / of_int sr \<and> sr \<noteq> 0 \<and> feature_window self = 30 \<and>
   order self = 4 \<and> lowpass_cutoff self = 3"
  by (auto simp: init_def split: if_splits)

lemma init_default: "init 10 50 = Inr default_self"
  using small_rate_below_limit [of 10] by (simp add: init_def default_self_def)

text \<open>
  Claim C8, as stated, fails: a negative sample rate is not rejected.  Constructing the
  pipeline with \<^verbatim>\<open>sample_rate = -5\<close> returns an object whose sample period is \<open>-1/5\<close>.
\<close>

theorem init_negative_rate_succeeds:
  "\<not> isl (init (- 5) 50) \<and>
   map_sum id sample_rate (init (- 5) 50) = Inr (- 5) \<and>
   map_sum id dt (init (- 5) 50) = Inr (- (1 / 5))"
  using small_rate_below_limit [of "- 5"] by (simp add: init_def)

text \<open>
  Claim C8, amended: construction raises exactly when the sample rate cannot be divided
  by: when it is zero (\<^verbatim>\<open>ZeroDivisionError\<close>) and when its magnitude is
  \<^verbatim>\<open>2**1024 - 2**970\<close> or more, too large for a float (\<^verbatim>\<open>OverflowError\<close>).  With every
  other sample rate, positive or negative, it succeeds and stores the sample period
  \<open>1 / sample_rate\<close>.
\<close>

theorem init_raises_iff_not_divisor:
  "((init sr ws = Inl ZeroDivisionError) = (sr = 0)) \<and>
   ((init sr ws = Inl OverflowError) = (float_int_limit \<le> \<bar>sr\<bar>)) \<and>
   (\<forall>e. init sr ws = Inl e \<longrightarrow> sr = 0 \<or> float_int_limit \<le> \<bar>sr\<bar>) \<and>
   (sr \<noteq> 0 \<and> \<bar>sr\<bar> < float_int_limit \<longrightarrow>
      (\<exists>self. init sr ws = Inr self \<and> sample_rate self = sr \<and> dt self = 1 / of_int sr))"
proof -
  from float_int_limit_bounds(1) have "0 < float_int_limit"
    by (rule less_le_trans [rotated]) simp
  then show ?thesis by (auto simp: init_def)
qed

theorem init_raises_iff_not_divisor_witness:
  "init 0 50 = Inl ZeroDivisionError \<and>
   init (2 ^ 1024) 50 = Inl OverflowError \<and>
   (10 \<noteq> (0::int) \<and> \<bar>10\<bar> < float_int_limit) \<and>
   (\<exists>self. init 10 50 = Inr self \<and> sample_rate self = 10 \<and> dt self = 1 / 10)"
proof -
  have big: "float_int_limit \<le> \<bar>2 ^ 1024 :: int\<bar>"
    using float_int_limit_bounds(2) by simp
  have small: "\<bar>10\<bar> < float_int_limit"
    using small_rate_below_limit [of 10] by simp
  from init_raises_iff_not_divisor [of 0 50] init_raises_iff_not_divisor [of "2 ^ 1024" 50]
    init_raises_iff_not_divisor [of 10 50] big small
  show ?thesis by simp
qed

section \<open>The stages leave their input alone\<close>

lemma preserves_remove_outliers: "r \<noteq> c \<Longrightarrow> preserves r (remove_outliers c col)"
  by (simp add: remove_outliers_def preserves_bind preserves_get_float preserves_setitem)

lemma preserves_lowpass_column: "r \<noteq> c \<Longrightarrow> preserves r (lowpass_column lib self b a c col)"
  by (simp add: lowpass_column_def preserves_bind preserves_get_float preserves_setitem
      preserves_len_df preserves_lift preserves_return)

lemma preserves_smooth_column: "r \<noteq> c \<Longrightarrow> preserves r (smooth_column lib c col)"
  by (simp add: smooth_column_def preserves_bind preserves_get_float preserves_setitem
      preserves_len_df preserves_lift)

lemma preserves_preprocess_data: "preserves r (preprocess_data lib self df)"
  unfolding preprocess_data_def
  by (rule preserves_copy)
     (simp add: preserves_bind preserves_for_each preserves_remove_outliers
        preserves_lowpass_column preserves_smooth_column preserves_len_df preserves_return
        Let_def split: prod.splits)

lemma preserves_extract_orientation: "preserves r (extract_orientation df)"
  unfolding extract_orientation_def
  by (rule preserves_copy)
     (simp add: preserves_bind preserves_get_float preserves_setitem preserves_return)

lemma preserves_extract_advanced_features:
  "preserves r (extract_advanced_features self df)"
  unfolding extract_advanced_features_def
  by (rule preserves_copy)
     (simp add: preserves_bind preserves_get_float preserves_setitem preserves_return
        preserves_len_df preserves_for_each preserves_setitem_scalar Let_def)

lemma preserves_write_row: "r \<noteq> c \<Longrightarrow> preserves r (write_row pd c i st)"
  unfolding write_row_def
  by (simp add: preserves_bind preserves_iloc_set split: prod.splits)

lemma preserves_classify_row: "r \<noteq> c \<Longrightarrow> preserves r (classify_row pd self c i)"
  unfolding classify_row_def
  by (simp add: preserves_bind preserves_iloc_float preserves_write_row preserves_return
        preserves_columns_contains Let_def)

lemma preserves_classify_posture_realtime:
  "preserves r (classify_posture_realtime pd self df)"
  unfolding classify_posture_realtime_def
  by (rule preserves_copy)
     (simp add: preserves_bind preserves_setitem_scalar preserves_len_df preserves_for_each
        preserves_classify_row preserves_return)

subsection \<open>What a stage returns is the copy\<close>

lemma returns_return: "returns (return c) c"
  by (simp add: returns_def return_def)

lemma returns_bind: "(\<And>x. returns (f x) c) \<Longrightarrow> returns (bind m f) c"
  by (auto simp: returns_def bind_def split: prod.splits sum.splits)

lemma returns_copy:
  assumes "\<And>c. returns (f c) c" and "bind (df_copy df) f s = (Inr c, s')"
  shows "c = length s \<and> df < length s"
proof (cases "df < length s")
  case False
  with assms(2) show ?thesis by (simp add: bind_def df_copy_def)
next
  case True
  with assms(2) have "f (length s) (s @ [s ! df]) = (Inr c, s')"
    by (simp add: bind_def df_copy_def)
  with assms(1) [of "length s"] True show ?thesis by (auto simp: returns_def)
qed

lemma preprocess_data_returns:
  "preprocess_data lib self df s = (Inr c, s') \<Longrightarrow> c = length s \<and> df < length s"
  unfolding preprocess_data_def
  by (erule returns_copy [rotated]) (simp add: returns_bind returns_return)

lemma extract_orientation_returns:
  "extract_orientation df s = (Inr c, s') \<Longrightarrow> c = length s \<and> df < length s"
  unfolding extract_orientation_def
  by (erule returns_copy [rotated]) (simp add: returns_bind returns_return)

lemma extract_advanced_features_returns:
  "extract_advanced_features self df s = (Inr c, s') \<Longrightarrow> c = length s \<and> df < length s"
  unfolding extract_advanced_features_def
  by (erule returns_copy [rotated]) (simp add: returns_bind returns_return Let_def)

lemma classify_posture_realtime_returns:
  "classify_posture_realtime pd self df s = (Inr c, s') \<Longrightarrow> c = length s \<and> df < length s"
  unfolding classify_posture_realtime_def
  by (erule returns_copy [rotated]) (simp add: returns_bind returns_return)

text \<open>
  Claim C9: \<^verbatim>\<open>preprocess_data\<close>, \<^verbatim>\<open>extract_orientation\<close>, \<^verbatim>\<open>extract_advanced_features\<close> and
  \<^verbatim>\<open>classify_posture_realtime\<close> work on a copy.  Whatever the store and whether the stage
  returns or raises, every data frame \<open>r\<close> that existed before the call, the input \<open>df\<close>
  among them, holds the same value after it; and a stage that returns, returns a
  reference to a new object.
\<close>

theorem stages_leave_input_unmodified:
  assumes "r < length s"
  shows "snd (preprocess_data lib self df s) ! r = s ! r \<and>
         snd (extract_orientation df s) ! r = s ! r \<and>
         snd (extract_advanced_features self df s) ! r = s ! r \<and>
         snd (classify_posture_realtime pd self df s) ! r = s ! r \<and>
         (\<forall>c. fst (preprocess_data lib self df s) = Inr c \<or>
              fst (extract_orientation df s) = Inr c \<or>
              fst (extract_advanced_features self df s) = Inr c \<or>
              fst (classify_posture_realtime pd self df s) = Inr c
              \<longrightarrow> c = length s \<and> c \<noteq> r \<and> c \<noteq> df)"
proof -
  have new: "\<forall>c. fst (preprocess_data lib self df s) = Inr c \<or>
              fst (extract_orientation df s) = Inr c \<or>
              fst (extract_advanced_features self df s) = Inr c \<or>
              fst (classify_posture_realtime pd self df s) = Inr c
              \<longrightarrow> c = length s \<and> df < length s"
    using preprocess_data_returns [of lib self df s]
      extract_orientation_returns [of df s]
      extract_advanced_features_returns [of self df s]
      classify_posture_realtime_returns [of pd self df s]
    by (metis prod.collapse)
  from assms preserves_preprocess_data [of r lib self df]
    preserves_extract_orientation [of r df]
    preserves_extract_advanced_features [of r self df]
    preserves_classify_posture_realtime [of r pd self df]
  have "snd (preprocess_data lib self df s) ! r = s ! r \<and>
         snd (extract_orientation df s) ! r = s ! r \<and>
         snd (extract_advanced_features self df s) ! r = s ! r \<and>
         snd (classify_posture_realtime pd self df s) ! r = s ! r"
    unfolding preserves_def by blast
  with new assms show ?thesis by auto
qed

theorem stages_leave_input_unmodified_witness:
  "0 < length [upright_frame] \<and>
   snd (preprocess_data plain_numlib default_self 0 [upright_frame]) ! 0 = upright_frame \<and>
   snd (extract_orientation 0 [upright_frame]) ! 0 = upright_frame \<and>
   snd (extract_advanced_features default_self 0 [upright_frame]) ! 0 = upright_frame \<and>
   snd (classify_posture_realtime Strict default_self 0 [upright_frame]) ! 0 = upright_frame \<and>
   snd (classify_posture_realtime Upcasting default_self 0 [upright_frame]) ! 0 = upright_frame"
  using stages_leave_input_unmodified [of 0 "[upright_frame]" plain_numlib default_self 0 Strict]
    stages_leave_input_unmodified [of 0 "[upright_frame]" plain_numlib default_self 0 Upcasting]
  by simp

section \<open>Orientation angles\<close>

lemma length_pitch_column:
  "length (pitch_column ax ay az) = min (length ax) (min (length ay) (length az))"
  by (simp add: pitch_column_def)

lemma length_roll_column: "length (roll_column ay az) = min (length ay) (length az)"
  by (simp add: roll_column_def)

lemma length_magnitude_column: "length (magnitude_column p r) = min (length p) (length r)"
  by (simp add: magnitude_column_def)

lemma extract_orientation_exec:
  assumes df: "df < length s"
    and "num_col (s ! df) ''s1_accel_x'' = Some ax1"
    and "num_col (s ! df) ''s1_accel_y'' = Some ay1"
    and "num_col (s ! df) ''s1_accel_z'' = Some az1"
    and "num_col (s ! df) ''s2_accel_x'' = Some ax2"
    and "num_col (s ! df) ''s2_accel_y'' = Some ay2"
    and "num_col (s ! df) ''s2_accel_z'' = Some az2"
  shows "\<exists>d'. extract_orientation df s = (Inr (length s), s @ [d']) \<and>
           nrows d' = nrows (s ! df) \<and>
           num_col d' ''s1_pitch'' = Some (pitch_column ax1 ay1 az1) \<and>
           num_col d' ''s1_roll'' = Some (roll_column ay1 az1) \<and>
           num_col d' ''s2_pitch'' = Some (pitch_column ax2 ay2 az2) \<and>
           num_col d' ''s2_roll'' = Some (roll_column ay2 az2) \<and>
           num_col d' ''spine_pitch_curvature'' =
             Some (map2 (-) (pitch_column ax1 ay1 az1) (pitch_column ax2 ay2 az2)) \<and>
           num_col d' ''spine_roll_curvature'' =
             Some (map2 (-) (roll_column ay1 az1) (roll_column ay2 az2)) \<and>
           num_col d' ''spine_curvature_magnitude'' =
             Some (magnitude_column
                     (map2 (-) (pitch_column ax1 ay1 az1) (pitch_column ax2 ay2 az2))
                     (map2 (-) (roll_column ay1 az1) (roll_column ay2 az2)))"
proof -
  note len = assms(2-7) [THEN num_col_length]
  show ?thesis
    unfolding extract_orientation_def
    using assms len
    by (simp add: bind_apply df_copy_apply get_float_top setitem_top num_col_set_col_floats length_floats
        nrows_set_col length_pitch_column length_roll_column length_magnitude_column
        return_apply)
qed

lemma nth_pitch_column:
  "i < length ax \<Longrightarrow> length ay = length ax \<Longrightarrow> length az = length ax \<Longrightarrow>
   pitch_column ax ay az ! i = arctan2 (- (ax ! i)) (sqrt ((ay ! i)\<^sup>2 + (az ! i)\<^sup>2)) * 180 / pi"
  by (simp add: pitch_column_def)

lemma nth_roll_column:
  "i < length ay \<Longrightarrow> length az = length ay \<Longrightarrow>
   roll_column ay az ! i = arctan2 (ay ! i) (az ! i) * 180 / pi"
  by (simp add: roll_column_def)

lemma nth_magnitude_column:
  "i < length p \<Longrightarrow> length r = length p \<Longrightarrow>
   magnitude_column p r ! i = sqrt ((p ! i)\<^sup>2 + (r ! i)\<^sup>2)"
  by (simp add: magnitude_column_def)

lemma arctan2_gravity: "0 < g \<Longrightarrow> arctan2 0 g = 0"
  by (simp add: arctan2_def)

text \<open>
  Claim C4: for every sample \<open>i\<close> of a frame with the six accelerometer channels,
  \<^verbatim>\<open>extract_orientation\<close> returns a new frame in which, for each sensor, the pitch is
  \<open>atan2(-accel_x, sqrt(accel_y\<^sup>2 + accel_z\<^sup>2))\<close> and the roll is \<open>atan2(accel_y, accel_z)\<close>,
  both in degrees, the pitch and roll curvatures are the differences between the sensors
  and the curvature magnitude is the root of the sum of their squares.  An acceleration
  \<open>(0, 0, g)\<close> with \<open>g > 0\<close> gives pitch and roll 0, and equal pitch and roll on both
  sensors give three curvature values 0.
\<close>

theorem extract_orientation_angles:
  assumes df: "df < length s"
    and cols: "num_col (s ! df) ''s1_accel_x'' = Some ax1"
      "num_col (s ! df) ''s1_accel_y'' = Some ay1"
      "num_col (s ! df) ''s1_accel_z'' = Some az1"
      "num_col (s ! df) ''s2_accel_x'' = Some ax2"
      "num_col (s ! df) ''s2_accel_y'' = Some ay2"
      "num_col (s ! df) ''s2_accel_z'' = Some az2"
    and i: "i < nrows (s ! df)"
  shows "\<exists>d' p1 r1 p2 r2 cp cr cm.
           extract_orientation df s = (Inr (length s), s @ [d']) \<and>
           nrows d' = nrows (s ! df) \<and>
           num_col d' ''s1_pitch'' = Some p1 \<and> num_col d' ''s1_roll'' = Some r1 \<and>
           num_col d' ''s2_pitch'' = Some p2 \<and> num_col d' ''s2_roll'' = Some r2 \<and>
           num_col d' ''spine_pitch_curvature'' = Some cp \<and>
           num_col d' ''spine_roll_curvature'' = Some cr \<and>
           num_col d' ''spine_curvature_magnitude'' = Some cm \<and>
           p1 ! i = arctan2 (- (ax1 ! i)) (sqrt ((ay1 ! i)\<^sup>2 + (az1 ! i)\<^sup>2)) * 180 / pi \<and>
           r1 ! i = arctan2 (ay1 ! i) (az1 ! i) * 180 / pi \<and>
           p2 ! i = arctan2 (- (ax2 ! i)) (sqrt ((ay2 ! i)\<^sup>2 + (az2 ! i)\<^sup>2)) * 180 / pi \<and>
           r2 ! i = arctan2 (ay2 ! i) (az2 ! i) * 180 / pi \<and>
           cp ! i = p1 ! i - p2 ! i \<and>
           cr ! i = r1 ! i - r2 ! i \<and>
           cm ! i = sqrt ((cp ! i)\<^sup>2 + (cr ! i)\<^sup>2) \<and>
           (ax1 ! i = 0 \<and> ay1 ! i = 0 \<and> 0 < az1 ! i \<longrightarrow> p1 ! i = 0 \<and> r1 ! i = 0) \<and>
           (ax2 ! i = 0 \<and> ay2 ! i = 0 \<and> 0 < az2 ! i \<longrightarrow> p2 ! i = 0 \<and> r2 ! i = 0) \<and>
           (p1 ! i = p2 ! i \<and> r1 ! i = r2 ! i \<longrightarrow> cp ! i = 0 \<and> cr ! i = 0 \<and> cm ! i = 0)"
proof -
  note len = cols [THEN num_col_length]
  from extract_orientation_exec [OF df cols]
  obtain d' where d': "extract_orientation df s = (Inr (length s), s @ [d'])"
      "nrows d' = nrows (s ! df)"
      "num_col d' ''s1_pitch'' = Some (pitch_column ax1 ay1 az1)"
      "num_col d' ''s1_roll'' = Some (roll_column ay1 az1)"
      "num_col d' ''s2_pitch'' = Some (pitch_column ax2 ay2 az2)"
      "num_col d' ''s2_roll'' = Some (roll_column ay2 az2)"
      "num_col d' ''spine_pitch_curvature'' =
         Some (map2 (-) (pitch_column ax1 ay1 az1) (pitch_column ax2 ay2 az2))"
      "num_col d' ''spine_roll_curvature'' =
         Some (map2 (-) (roll_column ay1 az1) (roll_column ay2 az2))"
      "num_col d' ''spine_curvature_magnitude'' =
         Some (magnitude_column
                 (map2 (-) (pitch_column ax1 ay1 az1) (pitch_column ax2 ay2 az2))
                 (map2 (-) (roll_column ay1 az1) (roll_column ay2 az2)))"
    by blast
  let ?p1 = "pitch_column ax1 ay1 az1" and ?r1 = "roll_column ay1 az1"
  let ?p2 = "pitch_column ax2 ay2 az2" and ?r2 = "roll_column ay2 az2"
  let ?cp = "map2 (-) ?p1 ?p2" and ?cr = "map2 (-) ?r1 ?r2"
  have p1: "?p1 ! i = arctan2 (- (ax1 ! i)) (sqrt ((ay1 ! i)\<^sup>2 + (az1 ! i)\<^sup>2)) * 180 / pi"
    using len i by (simp add: nth_pitch_column)
  have p2: "?p2 ! i = arctan2 (- (ax2 ! i)) (sqrt ((ay2 ! i)\<^sup>2 + (az2 ! i)\<^sup>2)) * 180 / pi"
    using len i by (simp add: nth_pitch_column)
  have r1: "?r1 ! i = arctan2 (ay1 ! i) (az1 ! i) * 180 / pi"
    using len i by (simp add: nth_roll_column)
  have r2: "?r2 ! i = arctan2 (ay2 ! i) (az2 ! i) * 180 / pi"
    using len i by (simp add: nth_roll_column)
  have cp: "?cp ! i = ?p1 ! i - ?p2 ! i"
    using len i by (simp add: length_pitch_column)
  have cr: "?cr ! i = ?r1 ! i - ?r2 ! i"
    using len i by (simp add: length_roll_column)
  have cm: "magnitude_column ?cp ?cr ! i = sqrt ((?cp ! i)\<^sup>2 + (?cr ! i)\<^sup>2)"
    using len i by (simp add: nth_magnitude_column length_pitch_column length_roll_column)
  have g1: "ax1 ! i = 0 \<and> ay1 ! i = 0 \<and> 0 < az1 ! i \<longrightarrow> ?p1 ! i = 0 \<and> ?r1 ! i = 0"
    unfolding p1 r1 by (simp add: arctan2_gravity)
  have g2: "ax2 ! i = 0 \<and> ay2 ! i = 0 \<and> 0 < az2 ! i \<longrightarrow> ?p2 ! i = 0 \<and> ?r2 ! i = 0"
    unfolding p2 r2 by (simp add: arctan2_gravity)
  have same: "?p1 ! i = ?p2 ! i \<and> ?r1 ! i = ?r2 ! i \<longrightarrow>
              ?cp ! i = 0 \<and> ?cr ! i = 0 \<and> magnitude_column ?cp ?cr ! i = 0"
    unfolding cm cp cr by simp
  from d' p1 p2 r1 r2 cp cr cm g1 g2 same show ?thesis by blast
qed

lemma singleton_nth: "length xs = 1 \<Longrightarrow> xs ! 0 = v \<Longrightarrow> xs = [v]"
  by (cases xs) auto

theorem extract_orientation_angles_witness:
  "num_col upright_frame ''s1_accel_x'' = Some [0] \<and>
   num_col upright_frame ''s1_accel_z'' = Some [98 / 10] \<and>
   (\<exists>d'. extract_orientation 0 [upright_frame] = (Inr 1, [upright_frame, d']) \<and>
      num_col d' ''s1_pitch'' = Some [0] \<and> num_col d' ''s1_roll'' = Some [0] \<and>
      num_col d' ''s2_pitch'' = Some [0] \<and> num_col d' ''s2_roll'' = Some [0] \<and>
      num_col d' ''spine_pitch_curvature'' = Some [0] \<and>
      num_col d' ''spine_roll_curvature'' = Some [0] \<and>
      num_col d' ''spine_curvature_magnitude'' = Some [0])"
proof -
  have x1: "num_col ([upright_frame] ! 0) ''s1_accel_x'' = Some [0]"
    and y1: "num_col ([upright_frame] ! 0) ''s1_accel_y'' = Some [0]"
    and z1: "num_col ([upright_frame] ! 0) ''s1_accel_z'' = Some [98 / 10]"
    and x2: "num_col ([upright_frame] ! 0) ''s2_accel_x'' = Some [0]"
    and y2: "num_col ([upright_frame] ! 0) ''s2_accel_y'' = Some [0]"
    and z2: "num_col ([upright_frame] ! 0) ''s2_accel_z'' = Some [98 / 10]"
    by (simp_all add: num_col_def upright_frame_def)
  have df: "0 < length [upright_frame]" and i: "0 < nrows ([upright_frame] ! 0)"
    by (simp_all add: upright_frame_def)
  from extract_orientation_angles [OF df x1 y1 z1 x2 y2 z2 i]
  obtain d' p1 r1 p2 r2 cp cr cm where
    run: "extract_orientation 0 [upright_frame] = (Inr (length [upright_frame]), [upright_frame] @ [d'])"
    and n: "nrows d' = nrows ([upright_frame] ! 0)"
    and c: "num_col d' ''s1_pitch'' = Some p1" "num_col d' ''s1_roll'' = Some r1"
      "num_col d' ''s2_pitch'' = Some p2" "num_col d' ''s2_roll'' = Some r2"
      "num_col d' ''spine_pitch_curvature'' = Some cp"
      "num_col d' ''spine_roll_curvature'' = Some cr"
      "num_col d' ''spine_curvature_magnitude'' = Some cm"
    and g1: "[0::real] ! 0 = 0 \<and> [0::real] ! 0 = 0 \<and> 0 < [98 / 10 :: real] ! 0 \<longrightarrow> p1 ! 0 = 0 \<and> r1 ! 0 = 0"
    and g2: "[0::real] ! 0 = 0 \<and> [0::real] ! 0 = 0 \<and> 0 < [98 / 10 :: real] ! 0 \<longrightarrow> p2 ! 0 = 0 \<and> r2 ! 0 = 0"
    and same: "p1 ! 0 = p2 ! 0 \<and> r1 ! 0 = r2 ! 0 \<longrightarrow> cp ! 0 = 0 \<and> cr ! 0 = 0 \<and> cm ! 0 = 0"
    by blast
  from n have n1: "nrows d' = 1" by (simp add: upright_frame_def)
  from g1 g2 have z: "p1 ! 0 = 0" "r1 ! 0 = 0" "p2 ! 0 = 0" "r2 ! 0 = 0" by simp_all
  with same have z': "cp ! 0 = 0" "cr ! 0 = 0" "cm ! 0 = 0" by simp_all
  from c [THEN num_col_length] n1
  have len: "length p1 = 1" "length r1 = 1" "length p2 = 1" "length r2 = 1"
    "length cp = 1" "length cr = 1" "length cm = 1" by simp_all
  have "p1 = [0]" "r1 = [0]" "p2 = [0]" "r2 = [0]" "cp = [0]" "cr = [0]" "cm = [0]"
    using len z z' by (simp_all add: singleton_nth)
  with c run x1 z1 show ?thesis by simp
qed

section \<open>The rule classifier\<close>

lemma cell_col_length: "cell_col d name = Some c \<Longrightarrow> length c = nrows d"
  by (auto simp: cell_col_def split: option.splits if_splits)

lemma cell_col_map_of: "cell_col d name = Some c \<Longrightarrow> map_of (cols d) name = Some c"
  by (auto simp: cell_col_def split: option.splits if_splits)

lemma num_col_has_col: "num_col d name = Some xs \<Longrightarrow> has_col d name"
  by (auto simp: num_col_def has_col_def split: option.splits)

lemma num_col_nth:
  "num_col d name = Some xs \<Longrightarrow> i < nrows d \<Longrightarrow>
   \<exists>c. map_of (cols d) name = Some c \<and> length c = nrows d \<and> num (c ! i) = Some (xs ! i)"
  apply (auto simp: num_col_def list_all_length split: option.splits if_splits)
  subgoal for c by (cases "c ! i") auto
  done

lemma iloc_float_top:
  "num_col d name = Some xs \<Longrightarrow> i < nrows d \<Longrightarrow>
   iloc_float (length s) i name (s @ [d]) = (Inr (xs ! i), s @ [d])"
  by (auto dest!: num_col_nth [where i = i]
      simp: iloc_float_def bind_def read_df_top return_def)

lemma columns_contains_top:
  "columns_contains (length s) name (s @ [d]) = (Inr (has_col d name), s @ [d])"
  by (simp add: columns_contains_def bind_def read_df_top return_def)

lemma cell_col_set_col:
  "cell_col (set_col name c d) name' =
     (if name' = name then (if length c = nrows d then Some c else None)
      else cell_col d name')"
  by (simp add: cell_col_def map_of_set_col nrows_set_col split: option.splits)

lemma num_col_set_col_other:
  "name' \<noteq> name \<Longrightarrow> num_col (set_col name c d) name' = num_col d name'"
  by (simp add: num_col_def map_of_set_col nrows_set_col split: option.splits)

lemma rules_spec:
  "side_lean_rule th r (hunched_rule th c (forward_head_rule th p ([], 0))) =
     (map fst (spec_issues th p c r None), sum_list (map snd (spec_issues th p c r None)))"
  by (simp add: side_lean_rule_def hunched_rule_def forward_head_rule_def spec_issues_def
      spec_forward_head_def spec_hunched_def spec_side_lean_def spec_movement_def)

lemma movement_rule_spec:
  "movement_rule th x (map fst (spec_issues th p c r None),
                       sum_list (map snd (spec_issues th p c r None))) =
     (map fst (spec_issues th p c r (Some x)),
      sum_list (map snd (spec_issues th p c r (Some x))))"
  by (simp add: movement_rule_def spec_issues_def spec_movement_def)

lemma iloc_set_top:
  "cell_col d name = Some c \<Longrightarrow> i < nrows d \<Longrightarrow> put_cell pd c i v = Inr c' \<Longrightarrow>
   iloc_set pd (length s) i name v (s @ [d]) = (Inr (), s @ [set_col name c' d])"
  using cell_col_length [of d name c] cell_col_map_of [of d name c]
  by (simp add: iloc_set_def bind_def read_df_top write_df_top lift_def)

lemma iloc_set_top_raises:
  "cell_col d name = Some c \<Longrightarrow> i < nrows d \<Longrightarrow> put_cell pd c i v = Inl e \<Longrightarrow>
   iloc_set pd (length s) i name v (s @ [d]) = (Inl e, s @ [d])"
  using cell_col_length [of d name c] cell_col_map_of [of d name c]
  by (simp add: iloc_set_def bind_def read_df_top lift_def)

subsection \<open>Cell writes of the classifier\<close>

lemma is_int_is_number: "is_int x \<Longrightarrow> is_number x"
  by (cases x) simp_all

lemma dtype_of_strings:
  "\<forall>x\<in>set c. \<not> is_number x \<Longrightarrow> c \<noteq> [] \<Longrightarrow> dtype_of c = Object"
  by (cases c) (auto simp: dtype_of_def dest: is_int_is_number)

lemma put_cell_label:
  "\<forall>x\<in>set c. \<not> is_number x \<Longrightarrow> i < length c \<Longrightarrow> put_cell pd c i (S l) = Inr (c[i := S l])"
  by (cases "c = []") (simp_all add: put_cell_def dtype_of_strings)

lemma put_cell_severity:
  "list_all is_int c \<Longrightarrow> put_cell pd c i (I n) = Inr (c[i := I n])"
  by (simp add: put_cell_def dtype_of_def)

lemma put_cell_float_strict:
  "list_all is_int c \<Longrightarrow> of_int \<lfloor>x\<rfloor> \<noteq> x \<Longrightarrow> put_cell Strict c i (F x) = Inl TypeError"
  by (simp add: put_cell_def dtype_of_def)

lemma nth_map_to_float: "j < length c \<Longrightarrow> c ! j = F y \<Longrightarrow> map to_float c ! j = F y"
  by simp

lemma is_number_to_float: "is_number (to_float x) = is_number x"
  by (cases x) simp_all

lemma put_cell_float_upcasting:
  assumes c: "list_all is_number c" and i: "i < length c" and x: "of_int \<lfloor>x\<rfloor> \<noteq> x"
  shows "\<exists>c'. put_cell Upcasting c i (F x) = Inr c' \<and> length c' = length c \<and>
               c' ! i = F x \<and> list_all is_number c' \<and>
               (\<forall>j y. j \<noteq> i \<longrightarrow> j < length c \<longrightarrow> c ! j = F y \<longrightarrow> c' ! j = F y)"
proof (cases "list_all is_int c")
  case True
  with x have "put_cell Upcasting c i (F x) = Inr ((map to_float c)[i := F x])"
    using c by (simp add: put_cell_def dtype_of_def widen_def)
  moreover have "list_all is_number ((map to_float c)[i := F x])"
    using c by (auto simp: list_all_iff is_number_to_float dest!: set_update_subset_insert [THEN subsetD])
  ultimately show ?thesis using i by simp
next
  case False
  with c have "put_cell Upcasting c i (F x) = Inr (c[i := F x])"
    by (simp add: put_cell_def dtype_of_def)
  moreover have "list_all is_number (c[i := F x])"
    using c by (auto simp: list_all_iff dest!: set_update_subset_insert [THEN subsetD])
  ultimately show ?thesis using i by simp
qed

lemma proper_fraction_not_whole:
  fixes x :: real
  assumes "0 < x" "x < 1"
  shows "of_int \<lfloor>x\<rfloor> \<noteq> x"
proof -
  from assms have "\<lfloor>x\<rfloor> = 0" by (simp add: floor_eq_iff)
  with assms show ?thesis by simp
qed

lemma spec_confidence_not_whole:
  "of_int \<lfloor>spec_confidence iss\<rfloor> \<noteq> spec_confidence iss"
  by (rule proper_fraction_not_whole) (simp_all add: spec_confidence_def)

lemma write_row_unfold:
  "write_row pd r i (map fst iss, sum_list (map snd iss)) =
     bind (bind (iloc_set pd r i ''posture_label'' (S (spec_label iss)))
             (\<lambda>_. iloc_set pd r i ''confidence'' (F (spec_confidence iss))))
       (\<lambda>_. iloc_set pd r i ''severity_score'' (I (spec_severity iss)))"
proof -
  consider "iss = []" | x where "iss = [x]" | x y zs where "iss = x # y # zs"
    by (cases iss; cases "tl iss") auto
  then show ?thesis
    by cases (simp_all add: write_row_def spec_severity_def spec_label_def spec_confidence_def)
qed

lemma write_row_strict:
  assumes i: "i < nrows d"
    and lab: "cell_col d ''posture_label'' = Some lab" "\<forall>x\<in>set lab. \<not> is_number x"
    and conf: "cell_col d ''confidence'' = Some conf" "list_all is_int conf"
  shows "\<exists>d'. write_row Strict (length s) i (map fst iss, sum_list (map snd iss)) (s @ [d]) =
                (Inl TypeError, s @ [d'])"
proof -
  let ?d1 = "set_col ''posture_label'' (lab[i := S (spec_label iss)]) d"
  from i lab have il: "i < length lab" by (simp add: cell_col_length)
  have w1: "iloc_set Strict (length s) i ''posture_label'' (S (spec_label iss)) (s @ [d]) =
              (Inr (), s @ [?d1])"
    by (rule iloc_set_top [OF lab(1) i put_cell_label [OF lab(2) il]])
  have conf1: "cell_col ?d1 ''confidence'' = Some conf"
    using conf(1) by (simp add: cell_col_set_col)
  have i1: "i < nrows ?d1" using i by (simp add: nrows_set_col)
  have w2: "iloc_set Strict (length s) i ''confidence'' (F (spec_confidence iss)) (s @ [?d1]) =
              (Inl TypeError, s @ [?d1])"
    by (rule iloc_set_top_raises
          [OF conf1 i1 put_cell_float_strict [OF conf(2) spec_confidence_not_whole]])
  show ?thesis by (simp add: write_row_unfold bind_apply w1 w2)
qed

lemma write_row_upcasting:
  assumes i: "i < nrows d"
    and lab: "cell_col d ''posture_label'' = Some lab" "\<forall>x\<in>set lab. \<not> is_number x"
    and sev: "cell_col d ''severity_score'' = Some sev" "list_all is_int sev"
    and conf: "cell_col d ''confidence'' = Some conf" "list_all is_number conf"
  shows "\<exists>conf'.
           write_row Upcasting (length s) i (map fst iss, sum_list (map snd iss)) (s @ [d]) =
             (Inr (), s @ [set_col ''severity_score'' (sev[i := I (spec_severity iss)])
                            (set_col ''confidence'' conf'
                              (set_col ''posture_label'' (lab[i := S (spec_label iss)]) d))]) \<and>
           length conf' = length conf \<and> conf' ! i = F (spec_confidence iss) \<and>
           list_all is_number conf' \<and>
           (\<forall>j y. j \<noteq> i \<longrightarrow> j < length conf \<longrightarrow> conf ! j = F y \<longrightarrow> conf' ! j = F y)"
proof -
  let ?d1 = "set_col ''posture_label'' (lab[i := S (spec_label iss)]) d"
  note len = lab(1) [THEN cell_col_length] sev(1) [THEN cell_col_length]
    conf(1) [THEN cell_col_length]
  from i len have il: "i < length lab" and ic: "i < length conf" by simp_all
  have w1: "iloc_set Upcasting (length s) i ''posture_label'' (S (spec_label iss)) (s @ [d]) =
              (Inr (), s @ [?d1])"
    by (rule iloc_set_top [OF lab(1) i put_cell_label [OF lab(2) il]])
  from put_cell_float_upcasting [OF conf(2) ic spec_confidence_not_whole, of iss]
  obtain conf' where put: "put_cell Upcasting conf i (F (spec_confidence iss)) = Inr conf'"
    and c': "length conf' = length conf" "conf' ! i = F (spec_confidence iss)"
      "list_all is_number conf'"
      "\<forall>j y. j \<noteq> i \<longrightarrow> j < length conf \<longrightarrow> conf ! j = F y \<longrightarrow> conf' ! j = F y"
    by blast
  let ?d2 = "set_col ''confidence'' conf' ?d1"
  have conf1: "cell_col ?d1 ''confidence'' = Some conf"
    using conf(1) by (simp add: cell_col_set_col)
  have i1: "i < nrows ?d1" using i by (simp add: nrows_set_col)
  have w2: "iloc_set Upcasting (length s) i ''confidence'' (F (spec_confidence iss))
              (s @ [?d1]) = (Inr (), s @ [?d2])"
    by (rule iloc_set_top [OF conf1 i1 put])
  have sev2: "cell_col ?d2 ''severity_score'' = Some sev"
    using sev(1) by (simp add: cell_col_set_col)
  have i2: "i < nrows ?d2" using i by (simp add: nrows_set_col)
  have w3: "iloc_set Upcasting (length s) i ''severity_score'' (I (spec_severity iss))
              (s @ [?d2]) =
              (Inr (), s @ [set_col ''severity_score'' (sev[i := I (spec_severity iss)]) ?d2])"
    by (rule iloc_set_top [OF sev2 i2 put_cell_severity [OF sev(2)]])
  have "write_row Upcasting (length s) i (map fst iss, sum_list (map snd iss)) (s @ [d]) =
          (Inr (), s @ [set_col ''severity_score'' (sev[i := I (spec_severity iss)]) ?d2])"
    by (simp add: write_row_unfold bind_apply w1 w2 w3)
  with c' show ?thesis by blast
qed

subsection \<open>One row\<close>

lemma classify_row_as_write_row:
  assumes i: "i < nrows d"
    and p: "num_col d ''s1_pitch'' = Some p"
    and pc: "num_col d ''spine_pitch_curvature'' = Some pc"
    and rc: "num_col d ''spine_roll_curvature'' = Some rc"
    and st: "(\<not> has_col d ''spine_stability'' \<and> st = None) \<or>
             (\<exists>xs. num_col d ''spine_stability'' = Some xs \<and> st = Some (xs ! i))"
    and iss: "iss = spec_issues (thresholds self) (p ! i) (pc ! i) (rc ! i) st"
  shows "classify_row pd self (length s) i (s @ [d]) =
           write_row pd (length s) i (map fst iss, sum_list (map snd iss)) (s @ [d])"
  using st
proof
  assume a: "\<not> has_col d ''spine_stability'' \<and> st = None"
  show ?thesis
    unfolding classify_row_def iss
    using i p pc rc a
    by (simp add: Let_def bind_apply iloc_float_top columns_contains_top return_apply
        rules_spec)
next
  assume "\<exists>xs. num_col d ''spine_stability'' = Some xs \<and> st = Some (xs ! i)"
  then obtain xs where xs: "num_col d ''spine_stability'' = Some xs" "st = Some (xs ! i)"
    by blast
  from xs(1) have h: "has_col d ''spine_stability''" by (rule num_col_has_col)
  show ?thesis
    unfolding classify_row_def iss
    using i p pc rc xs h
    by (simp add: Let_def bind_apply iloc_float_top columns_contains_top return_apply
        rules_spec movement_rule_spec)
qed

subsection \<open>The loop, on pandas before 3.0\<close>

lemma classify_loop:
  assumes p: "num_col d ''s1_pitch'' = Some p"
    and pc: "num_col d ''spine_pitch_curvature'' = Some pc"
    and rc: "num_col d ''spine_roll_curvature'' = Some rc"
    and st: "(\<not> has_col d ''spine_stability'' \<and> st = None) \<or>
             (\<exists>xs. num_col d ''spine_stability'' = Some xs \<and> st = Some xs)"
    and lab: "cell_col d ''posture_label'' = Some lab" "\<forall>x\<in>set lab. \<not> is_number x"
    and sev: "cell_col d ''severity_score'' = Some sev" "list_all is_int sev"
    and conf: "cell_col d ''confidence'' = Some conf" "list_all is_number conf"
    and k: "k \<le> nrows d"
  shows "\<exists>d' lab' sev' conf'.
           for_each [0..<k] (classify_row Upcasting self (length s)) (s @ [d]) =
             (Inr (), s @ [d']) \<and>
           nrows d' = nrows d \<and>
           num_col d' ''s1_pitch'' = Some p \<and>
           num_col d' ''spine_pitch_curvature'' = Some pc \<and>
           num_col d' ''spine_roll_curvature'' = Some rc \<and>
           has_col d' ''spine_stability'' = has_col d ''spine_stability'' \<and>
           num_col d' ''spine_stability'' = num_col d ''spine_stability'' \<and>
           cell_col d' ''posture_label'' = Some lab' \<and> (\<forall>x\<in>set lab'. \<not> is_number x) \<and>
           cell_col d' ''severity_score'' = Some sev' \<and> list_all is_int sev' \<and>
           cell_col d' ''confidence'' = Some conf' \<and> list_all is_number conf' \<and>
           (\<forall>i<k. lab' ! i = S (spec_label (row_issues (thresholds self) p pc rc st i)) \<and>
                  sev' ! i = I (spec_severity (row_issues (thresholds self) p pc rc st i)) \<and>
                  conf' ! i = F (spec_confidence (row_issues (thresholds self) p pc rc st i)))"
  using k
proof (induction k)
  case 0
  with p pc rc lab sev conf show ?case by (simp add: return_apply)
next
  case (Suc k)
  then have k: "k < nrows d" by simp
  with Suc.IH obtain d' lab' sev' conf' where
    run: "for_each [0..<k] (classify_row Upcasting self (length s)) (s @ [d]) =
            (Inr (), s @ [d'])"
    and n: "nrows d' = nrows d"
    and p': "num_col d' ''s1_pitch'' = Some p"
    and pc': "num_col d' ''spine_pitch_curvature'' = Some pc"
    and rc': "num_col d' ''spine_roll_curvature'' = Some rc"
    and h': "has_col d' ''spine_stability'' = has_col d ''spine_stability''"
    and st': "num_col d' ''spine_stability'' = num_col d ''spine_stability''"
    and lab': "cell_col d' ''posture_label'' = Some lab'" "\<forall>x\<in>set lab'. \<not> is_number x"
    and sev': "cell_col d' ''severity_score'' = Some sev'" "list_all is_int sev'"
    and conf': "cell_col d' ''confidence'' = Some conf'" "list_all is_number conf'"
    and prev: "\<forall>i<k. lab' ! i = S (spec_label (row_issues (thresholds self) p pc rc st i)) \<and>
                  sev' ! i = I (spec_severity (row_issues (thresholds self) p pc rc st i)) \<and>
                  conf' ! i = F (spec_confidence (row_issues (thresholds self) p pc rc st i))"
    by auto
  let ?iss = "row_issues (thresholds self) p pc rc st k"
  from k n have k': "k < nrows d'" by simp
  have st'': "(\<not> has_col d' ''spine_stability'' \<and> map_option (\<lambda>xs. xs ! k) st = None) \<or>
              (\<exists>xs. num_col d' ''spine_stability'' = Some xs \<and>
                    map_option (\<lambda>xs. xs ! k) st = Some (xs ! k))"
    using st h' st' by auto
  have row: "classify_row Upcasting self (length s) k (s @ [d']) =
               write_row Upcasting (length s) k (map fst ?iss, sum_list (map snd ?iss))
                 (s @ [d'])"
    by (rule classify_row_as_write_row [OF k' p' pc' rc' st'']) (simp add: row_issues_def)
  from write_row_upcasting [OF k' lab' sev' conf', of s ?iss]
  obtain conf'' where
    wr: "write_row Upcasting (length s) k (map fst ?iss, sum_list (map snd ?iss)) (s @ [d']) =
           (Inr (), s @ [set_col ''severity_score'' (sev'[k := I (spec_severity ?iss)])
                          (set_col ''confidence'' conf''
                            (set_col ''posture_label'' (lab'[k := S (spec_label ?iss)]) d'))])"
    and c'': "length conf'' = length conf'" "conf'' ! k = F (spec_confidence ?iss)"
      "list_all is_number conf''"
      "\<forall>j y. j \<noteq> k \<longrightarrow> j < length conf' \<longrightarrow> conf' ! j = F y \<longrightarrow> conf'' ! j = F y"
    by blast
  let ?d'' = "set_col ''severity_score'' (sev'[k := I (spec_severity ?iss)])
               (set_col ''confidence'' conf''
                 (set_col ''posture_label'' (lab'[k := S (spec_label ?iss)]) d'))"
  have run': "for_each [0..<Suc k] (classify_row Upcasting self (length s)) (s @ [d]) =
                (Inr (), s @ [?d''])"
    by (simp add: for_each_append bind_apply run row wr return_apply)
  note len = lab'(1) [THEN cell_col_length] sev'(1) [THEN cell_col_length]
    conf'(1) [THEN cell_col_length]
  have cols: "nrows ?d'' = nrows d"
    "num_col ?d'' ''s1_pitch'' = Some p"
    "num_col ?d'' ''spine_pitch_curvature'' = Some pc"
    "num_col ?d'' ''spine_roll_curvature'' = Some rc"
    "has_col ?d'' ''spine_stability'' = has_col d ''spine_stability''"
    "num_col ?d'' ''spine_stability'' = num_col d ''spine_stability''"
    "cell_col ?d'' ''posture_label'' = Some (lab'[k := S (spec_label ?iss)])"
    "cell_col ?d'' ''severity_score'' = Some (sev'[k := I (spec_severity ?iss)])"
    "cell_col ?d'' ''confidence'' = Some conf''"
    using n p' pc' rc' h' st' len c''(1)
    by (simp_all add: nrows_set_col num_col_set_col_other has_col_set_col cell_col_set_col)
  have kinds: "\<forall>x\<in>set (lab'[k := S (spec_label ?iss)]). \<not> is_number x"
    "list_all is_int (sev'[k := I (spec_severity ?iss)])"
    using lab'(2) sev'(2)
    by (auto simp: list_all_iff dest!: set_update_subset_insert [THEN subsetD])
  have rows: "\<forall>i<Suc k.
      (lab'[k := S (spec_label ?iss)]) ! i
         = S (spec_label (row_issues (thresholds self) p pc rc st i)) \<and>
      (sev'[k := I (spec_severity ?iss)]) ! i
         = I (spec_severity (row_issues (thresholds self) p pc rc st i)) \<and>
      conf'' ! i = F (spec_confidence (row_issues (thresholds self) p pc rc st i))"
  proof (intro allI impI)
    fix i assume "i < Suc k"
    then consider "i = k" | "i < k" by linarith
    then show "(lab'[k := S (spec_label ?iss)]) ! i
         = S (spec_label (row_issues (thresholds self) p pc rc st i)) \<and>
      (sev'[k := I (spec_severity ?iss)]) ! i
         = I (spec_severity (row_issues (thresholds self) p pc rc st i)) \<and>
      conf'' ! i = F (spec_confidence (row_issues (thresholds self) p pc rc st i))"
    proof cases
      case 1
      with k' len c''(2) show ?thesis by simp
    next
      case 2
      with prev have old: "lab' ! i = S (spec_label (row_issues (thresholds self) p pc rc st i))"
        "sev' ! i = I (spec_severity (row_issues (thresholds self) p pc rc st i))"
        "conf' ! i = F (spec_confidence (row_issues (thresholds self) p pc rc st i))"
        by simp_all
      from 2 k' len have "i \<noteq> k" "i < length conf'" by simp_all
      with c''(4) old(3)
      have "conf'' ! i = F (spec_confidence (row_issues (thresholds self) p pc rc st i))"
        by blast
      with 2 old show ?thesis by simp
    qed
  qed
  from run' cols kinds c''(3) rows show ?case by blast
qed

lemma classify_posture_realtime_upcasting:
  assumes df: "df < length s"
    and p: "num_col (s ! df) ''s1_pitch'' = Some p"
    and pc: "num_col (s ! df) ''spine_pitch_curvature'' = Some pc"
    and rc: "num_col (s ! df) ''spine_roll_curvature'' = Some rc"
    and st: "(\<not> has_col (s ! df) ''spine_stability'' \<and> st = None) \<or>
             (\<exists>xs. num_col (s ! df) ''spine_stability'' = Some xs \<and> st = Some xs)"
  shows "\<exists>d' lab sev conf.
           classify_posture_realtime Upcasting self df s = (Inr (length s), s @ [d']) \<and>
           nrows d' = nrows (s ! df) \<and>
           cell_col d' ''posture_label'' = Some lab \<and>
           cell_col d' ''severity_score'' = Some sev \<and>
           cell_col d' ''confidence'' = Some conf \<and>
           (\<forall>i<nrows (s ! df).
              lab ! i = S (spec_label (row_issues (thresholds self) p pc rc st i)) \<and>
              sev ! i = I (spec_severity (row_issues (thresholds self) p pc rc st i)) \<and>
              conf ! i = F (spec_confidence (row_issues (thresholds self) p pc rc st i)))"
proof -
  let ?n = "nrows (s ! df)"
  let ?d0 = "set_col ''confidence'' (replicate ?n (I 0))
               (set_col ''severity_score'' (replicate ?n (I 0))
                 (set_col ''posture_label'' (replicate ?n (S ''unknown'')) (s ! df)))"
  have n0: "nrows ?d0 = ?n" by (simp add: nrows_set_col)
  have p0: "num_col ?d0 ''s1_pitch'' = Some p"
    and pc0: "num_col ?d0 ''spine_pitch_curvature'' = Some pc"
    and rc0: "num_col ?d0 ''spine_roll_curvature'' = Some rc"
    using p pc rc by (simp_all add: num_col_set_col_other)
  have st0: "(\<not> has_col ?d0 ''spine_stability'' \<and> st = None) \<or>
             (\<exists>xs. num_col ?d0 ''spine_stability'' = Some xs \<and> st = Some xs)"
    using st by (simp add: num_col_set_col_other has_col_set_col)
  have lab0: "cell_col ?d0 ''posture_label'' = Some (replicate ?n (S ''unknown''))"
    "\<forall>x\<in>set (replicate ?n (S ''unknown'')). \<not> is_number x"
    and sev0: "cell_col ?d0 ''severity_score'' = Some (replicate ?n (I 0))"
    "list_all is_int (replicate ?n (I 0))"
    and conf0: "cell_col ?d0 ''confidence'' = Some (replicate ?n (I 0))"
    "list_all is_number (replicate ?n (I 0))"
    by (simp_all add: cell_col_set_col nrows_set_col list_all_iff)
  from classify_loop [OF p0 pc0 rc0 st0 lab0 sev0 conf0, of ?n self s] n0
  obtain d' lab' sev' conf' where
    run: "for_each [0..<?n] (classify_row Upcasting self (length s)) (s @ [?d0]) =
            (Inr (), s @ [d'])"
    and n: "nrows d' = ?n"
    and out: "cell_col d' ''posture_label'' = Some lab'"
      "cell_col d' ''severity_score'' = Some sev'"
      "cell_col d' ''confidence'' = Some conf'"
    and rows: "\<forall>i<?n. lab' ! i = S (spec_label (row_issues (thresholds self) p pc rc st i)) \<and>
                  sev' ! i = I (spec_severity (row_issues (thresholds self) p pc rc st i)) \<and>
                  conf' ! i = F (spec_confidence (row_issues (thresholds self) p pc rc st i))"
    by auto
  have "classify_posture_realtime Upcasting self df s = (Inr (length s), s @ [d'])"
    unfolding classify_posture_realtime_def
    using df
    by (simp add: bind_apply df_copy_apply setitem_scalar_top nrows_set_col len_df_top run
        return_apply)
  with n out rows show ?thesis by blast
qed

subsection \<open>The first row, on pandas 3.0\<close>

lemma classify_posture_realtime_strict:
  assumes df: "df < length s"
    and rows: "0 < nrows (s ! df)"
    and p: "num_col (s ! df) ''s1_pitch'' = Some p"
    and pc: "num_col (s ! df) ''spine_pitch_curvature'' = Some pc"
    and rc: "num_col (s ! df) ''spine_roll_curvature'' = Some rc"
    and st: "(\<not> has_col (s ! df) ''spine_stability'' \<and> st = None) \<or>
             (\<exists>xs. num_col (s ! df) ''spine_stability'' = Some xs \<and> st = Some xs)"
  shows "fst (classify_posture_realtime Strict self df s) = Inl TypeError"
proof -
  let ?n = "nrows (s ! df)"
  let ?d0 = "set_col ''confidence'' (replicate ?n (I 0))
               (set_col ''severity_score'' (replicate ?n (I 0))
                 (set_col ''posture_label'' (replicate ?n (S ''unknown'')) (s ! df)))"
  have n0: "0 < nrows ?d0" using rows by (simp add: nrows_set_col)
  have p0: "num_col ?d0 ''s1_pitch'' = Some p"
    and pc0: "num_col ?d0 ''spine_pitch_curvature'' = Some pc"
    and rc0: "num_col ?d0 ''spine_roll_curvature'' = Some rc"
    using p pc rc by (simp_all add: num_col_set_col_other)
  have st0: "(\<not> has_col ?d0 ''spine_stability'' \<and> map_option (\<lambda>xs. xs ! 0) st = None) \<or>
             (\<exists>xs. num_col ?d0 ''spine_stability'' = Some xs \<and>
                   map_option (\<lambda>xs. xs ! 0) st = Some (xs ! 0))"
    using st by (auto simp: num_col_set_col_other has_col_set_col)
  have lab0: "cell_col ?d0 ''posture_label'' = Some (replicate ?n (S ''unknown''))"
    "\<forall>x\<in>set (replicate ?n (S ''unknown'')). \<not> is_number x"
    and conf0: "cell_col ?d0 ''confidence'' = Some (replicate ?n (I 0))"
    "list_all is_int (replicate ?n (I 0))"
    by (simp_all add: cell_col_set_col nrows_set_col list_all_iff)
  let ?iss = "row_issues (thresholds self) p pc rc st 0"
  have row: "classify_row Strict self (length s) 0 (s @ [?d0]) =
               write_row Strict (length s) 0 (map fst ?iss, sum_list (map snd ?iss))
                 (s @ [?d0])"
    by (rule classify_row_as_write_row [OF n0 p0 pc0 rc0 st0]) (simp add: row_issues_def)
  from write_row_strict [OF n0 lab0 conf0, of s ?iss]
  obtain d' where "write_row Strict (length s) 0 (map fst ?iss, sum_list (map snd ?iss))
      (s @ [?d0]) = (Inl TypeError, s @ [d'])"
    by blast
  with row have first: "classify_row Strict self (length s) 0 (s @ [?d0]) =
      (Inl TypeError, s @ [d'])"
    by simp
  from rows have "[0..<?n] = 0 # [Suc 0..<?n]" by (simp add: upt_conv_Cons)
  then have "for_each [0..<?n] (classify_row Strict self (length s)) (s @ [?d0]) =
      (Inl TypeError, s @ [d'])"
    by (simp add: bind_apply first)
  then show ?thesis
    unfolding classify_posture_realtime_def
    using df
    by (simp add: bind_apply df_copy_apply setitem_scalar_top nrows_set_col len_df_top)
qed

subsection \<open>The classifier on a frame\<close>

text \<open>
  Claim C1 is what the loop is written to do, and the code misses it by the dtype of one
  column: \<^verbatim>\<open>confidence\<close> is created with the integer 0, and 0.9, 0.8 or 0.7 is then
  written into it row by row.  On pandas 3.0 the first of these writes raises
  \<^verbatim>\<open>TypeError\<close>, so on every frame with at least one row the classifier raises and
  assigns nothing.  On pandas before 3.0 the column is widened, and every row gets the
  severity that is the sum of the deltas of the criteria that fire (severe forward head
  3, mild 1, severe hunched 3, mild 1, severe side lean 2, mild 1, movement issues 0)
  capped at 10, and the label and confidence that the number of issues gives: none,
  \<^verbatim>\<open>good_posture\<close> and 0.9; one, its name and 0.8; more, \<^verbatim>\<open>multiple_issues\<close> and 0.7.
\<close>

theorem classify_posture_realtime_by_pandas:
  assumes "df < length s"
    and "num_col (s ! df) ''s1_pitch'' = Some p"
    and "num_col (s ! df) ''spine_pitch_curvature'' = Some pc"
    and "num_col (s ! df) ''spine_roll_curvature'' = Some rc"
    and "(\<not> has_col (s ! df) ''spine_stability'' \<and> st = None) \<or>
         (\<exists>xs. num_col (s ! df) ''spine_stability'' = Some xs \<and> st = Some xs)"
  shows "(0 < nrows (s ! df) \<longrightarrow>
            fst (classify_posture_realtime Strict self df s) = Inl TypeError) \<and>
         (\<exists>d' lab sev conf.
            classify_posture_realtime Upcasting self df s = (Inr (length s), s @ [d']) \<and>
            nrows d' = nrows (s ! df) \<and>
            cell_col d' ''posture_label'' = Some lab \<and>
            cell_col d' ''severity_score'' = Some sev \<and>
            cell_col d' ''confidence'' = Some conf \<and>
            (\<forall>i<nrows (s ! df).
               lab ! i = S (spec_label (row_issues (thresholds self) p pc rc st i)) \<and>
               sev ! i = I (spec_severity (row_issues (thresholds self) p pc rc st i)) \<and>
               conf ! i = F (spec_confidence (row_issues (thresholds self) p pc rc st i))))"
  using classify_posture_realtime_strict [OF assms(1) _ assms(2-5), of self]
    classify_posture_realtime_upcasting [OF assms, of self]
  by blast

theorem classify_posture_realtime_by_pandas_witness:
  "num_col leaning_frame ''s1_pitch'' = Some [25, 5] \<and>
   num_col leaning_frame ''spine_pitch_curvature'' = Some [0, 0] \<and>
   num_col leaning_frame ''spine_roll_curvature'' = Some [0, - 9] \<and>
   num_col leaning_frame ''spine_stability'' = Some [5 / 2, 1] \<and>
   fst (classify_posture_realtime Strict default_self 0 [leaning_frame]) = Inl TypeError \<and>
   (\<exists>d' lab sev conf.
      classify_posture_realtime Upcasting default_self 0 [leaning_frame] =
        (Inr 1, [leaning_frame, d']) \<and>
      cell_col d' ''posture_label'' = Some lab \<and>
      cell_col d' ''severity_score'' = Some sev \<and>
      cell_col d' ''confidence'' = Some conf \<and>
      lab ! 0 = S ''severe_forward_head'' \<and> sev ! 0 = I 3 \<and> conf ! 0 = F (8 / 10) \<and>
      lab ! 1 = S ''multiple_issues'' \<and> sev ! 1 = I 1 \<and> conf ! 1 = F (7 / 10))"
proof -
  have df: "0 < length [leaning_frame]" by simp
  have p: "num_col ([leaning_frame] ! 0) ''s1_pitch'' = Some [25, 5]"
    and pc: "num_col ([leaning_frame] ! 0) ''spine_pitch_curvature'' = Some [0, 0]"
    and rc: "num_col ([leaning_frame] ! 0) ''spine_roll_curvature'' = Some [0, - 9]"
    and st: "num_col ([leaning_frame] ! 0) ''spine_stability'' = Some [5 / 2, 1]"
    by (simp_all add: num_col_def leaning_frame_def)
  from st have st': "(\<not> has_col ([leaning_frame] ! 0) ''spine_stability'' \<and>
                       Some [5 / 2, 1 :: real] = None) \<or>
         (\<exists>xs. num_col ([leaning_frame] ! 0) ''spine_stability'' = Some xs \<and>
               Some [5 / 2, 1 :: real] = Some xs)" by simp
  have n: "nrows ([leaning_frame] ! 0) = 2" by (simp add: leaning_frame_def)
  note inst = classify_posture_realtime_by_pandas [OF df p pc rc st', of default_self]
  from inst n
  have strict: "fst (classify_posture_realtime Strict default_self 0 [leaning_frame]) =
      Inl TypeError"
    by simp
  from inst obtain d' lab sev conf where
    run: "classify_posture_realtime Upcasting default_self 0 [leaning_frame] =
            (Inr (length [leaning_frame]), [leaning_frame] @ [d'])"
    and out: "cell_col d' ''posture_label'' = Some lab"
      "cell_col d' ''severity_score'' = Some sev"
      "cell_col d' ''confidence'' = Some conf"
    and rows: "\<forall>i<nrows ([leaning_frame] ! 0).
      lab ! i = S (spec_label (row_issues (thresholds default_self) [25, 5] [0, 0] [0, - 9]
                                 (Some [5 / 2, 1]) i)) \<and>
      sev ! i = I (spec_severity (row_issues (thresholds default_self) [25, 5] [0, 0] [0, - 9]
                                    (Some [5 / 2, 1]) i)) \<and>
      conf ! i = F (spec_confidence (row_issues (thresholds default_self) [25, 5] [0, 0]
                                       [0, - 9] (Some [5 / 2, 1]) i))"
    by blast
  have i0: "row_issues (thresholds default_self) [25, 5] [0, 0] [0, - 9] (Some [5 / 2, 1]) 0
              = [(''severe_forward_head'', 3)]"
    by (simp add: row_issues_def spec_issues_def spec_forward_head_def spec_hunched_def
        spec_side_lean_def spec_movement_def default_self_def)
  have i1: "row_issues (thresholds default_self) [25, 5] [0, 0] [0, - 9] (Some [5 / 2, 1])
              (Suc 0) = [(''mild_side_lean'', 1), (''static_posture'', 0)]"
    by (simp add: row_issues_def spec_issues_def spec_forward_head_def spec_hunched_def
        spec_side_lean_def spec_movement_def default_self_def)
  from rows n have "lab ! 0 = S ''severe_forward_head'' \<and> sev ! 0 = I 3 \<and>
      conf ! 0 = F (8 / 10) \<and> lab ! 1 = S ''multiple_issues'' \<and> sev ! 1 = I 1 \<and>
      conf ! 1 = F (7 / 10)"
    by (simp add: i0 i1 spec_label_def spec_severity_def spec_confidence_def)
  with run out p pc rc st strict show ?thesis by simp
qed

lemma row_issues_None:
  "row_issues th p pc rc None i =
     spec_forward_head th (p ! i) @ spec_hunched th (pc ! i) @ spec_side_lean th (rc ! i)"
  by (simp add: row_issues_def spec_issues_def spec_movement_def)

lemma angle_label_not_movement:
  "spec_label (spec_forward_head th a @ spec_hunched th b @ spec_side_lean th c)
     \<noteq> ''excessive_movement'' \<and>
   spec_label (spec_forward_head th a @ spec_hunched th b @ spec_side_lean th c)
     \<noteq> ''static_posture''"
  by (simp add: spec_label_def spec_forward_head_def spec_hunched_def spec_side_lean_def)

text \<open>
  Claim C10 is missed by the same write.  The missing column \<^verbatim>\<open>spine_stability\<close> is
  handled as the claim says: the movement criterion is skipped.  But on pandas 3.0 the
  classifier still raises \<^verbatim>\<open>TypeError\<close> on every frame with at least one row, at the
  first write of a confidence into the integer column.  On pandas before 3.0 it returns;
  every row gets the label, the severity and the confidence of the forward-head, hunched
  and side-lean criteria alone, and no row is labelled \<^verbatim>\<open>excessive_movement\<close> or
  \<^verbatim>\<open>static_posture\<close>.
\<close>

theorem classify_without_stability_by_pandas:
  assumes "df < length s"
    and "num_col (s ! df) ''s1_pitch'' = Some p"
    and "num_col (s ! df) ''spine_pitch_curvature'' = Some pc"
    and "num_col (s ! df) ''spine_roll_curvature'' = Some rc"
    and "\<not> has_col (s ! df) ''spine_stability''"
  shows "(0 < nrows (s ! df) \<longrightarrow>
            fst (classify_posture_realtime Strict self df s) = Inl TypeError) \<and>
         (\<exists>d' lab sev conf.
            classify_posture_realtime Upcasting self df s = (Inr (length s), s @ [d']) \<and>
            nrows d' = nrows (s ! df) \<and>
            cell_col d' ''posture_label'' = Some lab \<and>
            cell_col d' ''severity_score'' = Some sev \<and>
            cell_col d' ''confidence'' = Some conf \<and>
            (\<forall>i<nrows (s ! df).
               lab ! i = S (spec_label (spec_forward_head (thresholds self) (p ! i) @
                                        spec_hunched (thresholds self) (pc ! i) @
                                        spec_side_lean (thresholds self) (rc ! i))) \<and>
               sev ! i = I (spec_severity (spec_forward_head (thresholds self) (p ! i) @
                                           spec_hunched (thresholds self) (pc ! i) @
                                           spec_side_lean (thresholds self) (rc ! i))) \<and>
               conf ! i = F (spec_confidence (spec_forward_head (thresholds self) (p ! i) @
                                              spec_hunched (thresholds self) (pc ! i) @
                                              spec_side_lean (thresholds self) (rc ! i))) \<and>
               lab ! i \<noteq> S ''excessive_movement'' \<and> lab ! i \<noteq> S ''static_posture''))"
proof -
  from assms(5)
  have st: "(\<not> has_col (s ! df) ''spine_stability'' \<and> (None :: real list option) = None) \<or>
            (\<exists>xs. num_col (s ! df) ''spine_stability'' = Some xs \<and> None = Some xs)"
    by simp
  from classify_posture_realtime_upcasting [OF assms(1-4) st, of self]
  obtain d' lab sev conf where
    run: "classify_posture_realtime Upcasting self df s = (Inr (length s), s @ [d'])"
      "nrows d' = nrows (s ! df)"
      "cell_col d' ''posture_label'' = Some lab"
      "cell_col d' ''severity_score'' = Some sev"
      "cell_col d' ''confidence'' = Some conf"
    and rows: "\<forall>i<nrows (s ! df).
      lab ! i = S (spec_label (row_issues (thresholds self) p pc rc None i)) \<and>
      sev ! i = I (spec_severity (row_issues (thresholds self) p pc rc None i)) \<and>
      conf ! i = F (spec_confidence (row_issues (thresholds self) p pc rc None i))"
    by blast
  from rows have "\<forall>i<nrows (s ! df).
      lab ! i = S (spec_label (spec_forward_head (thresholds self) (p ! i) @
                               spec_hunched (thresholds self) (pc ! i) @
                               spec_side_lean (thresholds self) (rc ! i))) \<and>
      sev ! i = I (spec_severity (spec_forward_head (thresholds self) (p ! i) @
                                  spec_hunched (thresholds self) (pc ! i) @
                                  spec_side_lean (thresholds self) (rc ! i))) \<and>
      conf ! i = F (spec_confidence (spec_forward_head (thresholds self) (p ! i) @
                                     spec_hunched (thresholds self) (pc ! i) @
                                     spec_side_lean (thresholds self) (rc ! i))) \<and>
      lab ! i \<noteq> S ''excessive_movement'' \<and> lab ! i \<noteq> S ''static_posture''"
    using angle_label_not_movement [of "thresholds self"]
    by (simp add: row_issues_None)
  with run classify_posture_realtime_strict [OF assms(1) _ assms(2-4) st, of self]
  show ?thesis by blast
qed

theorem classify_without_stability_by_pandas_witness:
  "num_col leaning_frame_no_stability ''s1_pitch'' = Some [25, 5] \<and>
   num_col leaning_frame_no_stability ''spine_pitch_curvature'' = Some [0, 0] \<and>
   num_col leaning_frame_no_stability ''spine_roll_curvature'' = Some [0, - 9] \<and>
   \<not> has_col leaning_frame_no_stability ''spine_stability'' \<and>
   fst (classify_posture_realtime Strict default_self 0 [leaning_frame_no_stability]) =
     Inl TypeError \<and>
   (\<exists>d' lab sev conf.
      classify_posture_realtime Upcasting default_self 0 [leaning_frame_no_stability] =
        (Inr 1, [leaning_frame_no_stability, d']) \<and>
      cell_col d' ''posture_label'' = Some lab \<and>
      cell_col d' ''severity_score'' = Some sev \<and>
      cell_col d' ''confidence'' = Some conf \<and>
      lab ! 0 = S ''severe_forward_head'' \<and> sev ! 0 = I 3 \<and> conf ! 0 = F (8 / 10) \<and>
      lab ! 1 = S ''mild_side_lean'' \<and> sev ! 1 = I 1 \<and> conf ! 1 = F (8 / 10))"
proof -
  let ?f = leaning_frame_no_stability
  have df: "0 < length [?f]" by simp
  have p: "num_col ([?f] ! 0) ''s1_pitch'' = Some [25, 5]"
    and pc: "num_col ([?f] ! 0) ''spine_pitch_curvature'' = Some [0, 0]"
    and rc: "num_col ([?f] ! 0) ''spine_roll_curvature'' = Some [0, - 9]"
    by (simp_all add: num_col_def leaning_frame_no_stability_def)
  have st: "\<not> has_col ([?f] ! 0) ''spine_stability''"
    by (simp add: has_col_def leaning_frame_no_stability_def)
  have n: "nrows ([?f] ! 0) = 2" by (simp add: leaning_frame_no_stability_def)
  note inst = classify_without_stability_by_pandas [OF df p pc rc st, of default_self]
  from inst n
  have strict: "fst (classify_posture_realtime Strict default_self 0 [?f]) = Inl TypeError"
    by simp
  from inst obtain d' lab sev conf where
    run: "classify_posture_realtime Upcasting default_self 0 [?f] =
            (Inr (length [?f]), [?f] @ [d'])"
    and out: "cell_col d' ''posture_label'' = Some lab"
      "cell_col d' ''severity_score'' = Some sev"
      "cell_col d' ''confidence'' = Some conf"
    and rows: "\<forall>i<nrows ([?f] ! 0).
      lab ! i = S (spec_label (spec_forward_head (thresholds default_self) ([25, 5] ! i) @
                               spec_hunched (thresholds default_self) ([0, 0] ! i) @
                               spec_side_lean (thresholds default_self) ([0, - 9] ! i))) \<and>
      sev ! i = I (spec_severity (spec_forward_head (thresholds default_self) ([25, 5] ! i) @
                                  spec_hunched (thresholds default_self) ([0, 0] ! i) @
                                  spec_side_lean (thresholds default_self) ([0, - 9] ! i))) \<and>
      conf ! i = F (spec_confidence (spec_forward_head (thresholds default_self) ([25, 5] ! i) @
                                     spec_hunched (thresholds default_self) ([0, 0] ! i) @
                                     spec_side_lean (thresholds default_self) ([0, - 9] ! i))) \<and>
      lab ! i \<noteq> S ''excessive_movement'' \<and> lab ! i \<noteq> S ''static_posture''"
    by blast
  from rows n have r0: "lab ! 0 = S ''severe_forward_head'' \<and> sev ! 0 = I 3 \<and>
      conf ! 0 = F (8 / 10)"
    by (simp add: spec_forward_head_def spec_hunched_def spec_side_lean_def
        default_self_def spec_label_def spec_severity_def spec_confidence_def)
  from rows n have "(1::nat) < 2 \<longrightarrow> lab ! 1 = S ''mild_side_lean'' \<and> sev ! 1 = I 1 \<and>
      conf ! 1 = F (8 / 10)"
    by (simp add: spec_forward_head_def spec_hunched_def spec_side_lean_def
        default_self_def spec_label_def spec_severity_def spec_confidence_def)
  with r0 run out p pc rc st strict show ?thesis by simp
qed

section \<open>Insufficient data for pattern analysis\<close>

lemma analyze_patterns_short:
  "int (nrows df) < sample_rate self * 60 \<Longrightarrow>
   analyze_patterns lib self df minutes =
     Inr \<lparr> pattern_analysis = Some ''insufficient_data'', time_period = None,
           total_samples = None, posture_distribution = None, trends = [],
           recommendations = [CollectMoreData] \<rparr>"
  by (simp add: analyze_patterns_def)

lemma analyze_patterns_long:
  "\<not> int (nrows df) < sample_rate self * 60 \<Longrightarrow>
   analyze_patterns lib self df minutes = Inr rep \<Longrightarrow> pattern_analysis rep = None"
  by (auto simp: analyze_patterns_def Let_def split: if_splits sum.splits)

text \<open>
  Claim C7: \<^verbatim>\<open>analyze_patterns\<close> returns a report with
  \<^verbatim>\<open>pattern_analysis = "insufficient_data"\<close> and exactly one recommendation if and only if
  the series has fewer than \<open>60 \<times> sample_rate\<close> samples; for such a series the report
  has no posture distribution and no trend, whatever the fitting routine would do.
\<close>

theorem analyze_patterns_insufficient_data_iff:
  "((\<exists>rep. analyze_patterns lib self df minutes = Inr rep \<and>
           pattern_analysis rep = Some ''insufficient_data'' \<and>
           length (recommendations rep) = 1)
      = (int (nrows df) < sample_rate self * 60)) \<and>
   (int (nrows df) < sample_rate self * 60 \<longrightarrow>
      analyze_patterns lib self df minutes =
        Inr \<lparr> pattern_analysis = Some ''insufficient_data'', time_period = None,
              total_samples = None, posture_distribution = None, trends = [],
              recommendations = [CollectMoreData] \<rparr>)"
proof (cases "int (nrows df) < sample_rate self * 60")
  case True
  then show ?thesis by (simp add: analyze_patterns_short)
next
  case False
  then have "\<And>rep. analyze_patterns lib self df minutes = Inr rep \<Longrightarrow>
                  pattern_analysis rep \<noteq> Some ''insufficient_data''"
    by (auto dest: analyze_patterns_long)
  with False show ?thesis by auto
qed

theorem analyze_patterns_insufficient_data_iff_witness:
  "int (nrows leaning_frame) < sample_rate default_self * 60 \<and>
   analyze_patterns plain_numlib default_self leaning_frame 5 =
     Inr \<lparr> pattern_analysis = Some ''insufficient_data'', time_period = None,
           total_samples = None, posture_distribution = None, trends = [],
           recommendations = [CollectMoreData] \<rparr>"
proof -
  have short: "int (nrows leaning_frame) < sample_rate default_self * 60"
    by (simp add: leaning_frame_def default_self_def)
  with analyze_patterns_insufficient_data_iff [of plain_numlib default_self leaning_frame 5]
  show ?thesis by blast
qed

section \<open>Rolling features\<close>

lemma length_rolling_std: "length (rolling_std w mp ys) = length ys"
  by (simp add: rolling_std_def)

lemma length_rolling_mean: "length (rolling_mean w mp ys) = length ys"
  by (simp add: rolling_mean_def)

lemma length_diff_from: "length (diff_from prev ys) = length ys"
  by (induction ys arbitrary: prev) simp_all

lemma length_diff: "length (diff ys) = length ys"
  by (simp add: diff_def length_diff_from)

lemma length_fillna0: "length (fillna0 ys) = length ys"
  by (simp add: fillna0_def)

lemma length_cumsum_from: "length (cumsum_from a xs) = length xs"
  by (induction xs arbitrary: a) simp_all

lemma length_variability: "length (variability w xs) = length xs"
  by (simp add: variability_def length_fillna0 length_rolling_std)

lemma length_velocity: "length (velocity xs) = length xs"
  by (simp add: velocity_def length_fillna0 length_rolling_mean length_diff)

lemma length_acceleration: "length (acceleration xs) = length xs"
  by (simp add: acceleration_def length_fillna0 length_diff)

lemma length_cumulative_rotation:
  "length (cumulative_rotation d gx gy gz) = min (min (length gx) (length gy)) (length gz)"
  by (simp add: cumulative_rotation_def cumsum_def length_cumsum_from)

lemma extract_advanced_features_exec:
  assumes df: "df < length s"
    and w: "10 \<le> min (feature_window self * sample_rate self) (int (nrows (s ! df)))"
    and cols: "num_col (s ! df) ''s1_pitch'' = Some p1"
      "num_col (s ! df) ''s2_pitch'' = Some p2"
      "num_col (s ! df) ''spine_curvature_magnitude'' = Some m"
      "num_col (s ! df) ''s1_gyro_x'' = Some gx1"
      "num_col (s ! df) ''s1_gyro_y'' = Some gy1"
      "num_col (s ! df) ''s1_gyro_z'' = Some gz1"
      "num_col (s ! df) ''s2_gyro_x'' = Some gx2"
      "num_col (s ! df) ''s2_gyro_y'' = Some gy2"
      "num_col (s ! df) ''s2_gyro_z'' = Some gz2"
    and wn: "wn = nat (min (feature_window self * sample_rate self) (int (nrows (s ! df))))"
  shows "\<exists>d'. extract_advanced_features self df s = (Inr (length s), s @ [d']) \<and>
           nrows d' = nrows (s ! df) \<and>
           num_col d' ''s1_movement_variability'' = Some (variability wn p1) \<and>
           num_col d' ''s2_movement_variability'' = Some (variability wn p2) \<and>
           num_col d' ''spine_stability'' = Some (variability wn m) \<and>
           num_col d' ''s1_pitch_velocity'' = Some (velocity p1) \<and>
           num_col d' ''s2_pitch_velocity'' = Some (velocity p2) \<and>
           num_col d' ''s1_pitch_acceleration'' = Some (acceleration (velocity p1)) \<and>
           num_col d' ''s2_pitch_acceleration'' = Some (acceleration (velocity p2)) \<and>
           num_col d' ''s1_cumulative_rotation'' =
             Some (cumulative_rotation (dt self) gx1 gy1 gz1) \<and>
           num_col d' ''s2_cumulative_rotation'' =
             Some (cumulative_rotation (dt self) gx2 gy2 gz2)"
proof -
  note len = cols [THEN num_col_length]
  show ?thesis
    unfolding extract_advanced_features_def
    using df w cols len wn
    by (simp add: bind_apply df_copy_apply len_df_low get_float_low get_float_top setitem_top
        num_col_set_col_floats nrows_set_col length_floats length_variability length_velocity
        length_acceleration length_cumulative_rotation return_apply Let_def)
qed

lemma num_col_set_col_zeros:
  "num_col (set_col name (replicate n (I 0)) d) name' =
     (if name' = name then (if n = nrows d then Some (replicate n 0) else None)
      else num_col d name')"
  by (simp add: num_col_def map_of_set_col nrows_set_col list_all_iff
      split: option.splits)

lemma extract_advanced_features_short:
  assumes df: "df < length s"
    and w: "min (feature_window self * sample_rate self) (int (nrows (s ! df))) < 10"
  shows "\<exists>d'. extract_advanced_features self df s = (Inr (length s), s @ [d']) \<and>
           nrows d' = nrows (s ! df) \<and>
           (\<forall>name\<in>set feature_columns. num_col d' name = Some (replicate (nrows (s ! df)) 0))"
proof -
  from w have nw: "\<not> 10 \<le> min (feature_window self * sample_rate self) (int (nrows (s ! df)))"
    by linarith
  show ?thesis
    unfolding extract_advanced_features_def
    using df nw
    by (simp add: bind_apply df_copy_apply len_df_low Let_def feature_columns_def
        setitem_scalar_top nrows_set_col num_col_set_col_zeros return_apply
        del: min.bounded_iff)
qed

lemma valid_map_Some: "valid (map Some xs) = xs"
  by (induction xs) (simp_all add: valid_def)

lemma window_map: "window w (map f xs) i = map f (window w xs i)"
  by (simp add: window_def take_map drop_map)

lemma length_window: "i < length xs \<Longrightarrow> length (window w xs i) = min (Suc i) w"
  by (auto simp: window_def)

lemma nth_variability:
  "i < length xs \<Longrightarrow>
   variability w xs ! i =
     (if min (Suc i) w < 5 then 0
      else case std (window w xs i) of None \<Rightarrow> 0 | Some v \<Rightarrow> v)"
  by (simp add: variability_def fillna0_def rolling_std_def window_map valid_map_Some
      length_window Let_def)

lemma nth_velocity:
  "i < length xs \<Longrightarrow>
   velocity xs ! i =
     (if length (valid (window 5 (diff (map Some xs)) i)) < 2 then 0
      else case mean (valid (window 5 (diff (map Some xs)) i)) of None \<Rightarrow> 0 | Some v \<Rightarrow> v)"
  by (simp add: velocity_def fillna0_def rolling_mean_def length_diff Let_def)

lemma velocity_first: "0 < length xs \<Longrightarrow> velocity xs ! 0 = 0"
  by (cases xs) (simp_all add: nth_velocity window_def diff_def valid_def)

lemma cumsum_from_mono:
  "\<forall>x\<in>set xs. 0 \<le> x \<Longrightarrow> Suc i < length xs \<Longrightarrow>
   cumsum_from a xs ! i \<le> cumsum_from a xs ! Suc i"
proof (induction xs arbitrary: a i)
  case Nil
  then show ?case by simp
next
  case (Cons x xs)
  show ?case
  proof (cases i)
    case 0
    with Cons.prems obtain y ys where "xs = y # ys" by (cases xs) auto
    with Cons.prems 0 show ?thesis by simp
  next
    case (Suc j)
    with Cons show ?thesis by simp
  qed
qed

lemma cumsum_from_nth:
  "i < length xs \<Longrightarrow> cumsum_from a xs ! i = a + sum_list (take (Suc i) xs)"
proof (induction xs arbitrary: a i)
  case Nil
  then show ?case by simp
next
  case (Cons x xs)
  then show ?case by (cases i) simp_all
qed

lemma cumulative_rotation_mono:
  assumes "0 \<le> d" and "Suc i < length (cumulative_rotation d gx gy gz)"
  shows "cumulative_rotation d gx gy gz ! i \<le> cumulative_rotation d gx gy gz ! Suc i"
proof -
  let ?xs = "map2 (+) (map2 (+) (map abs gx) (map abs gy)) (map abs gz)"
  have nonneg: "\<forall>x\<in>set ?xs. 0 \<le> x"
    by (auto simp: set_zip)
  from assms(2) have len: "Suc i < length ?xs"
    by (simp add: cumulative_rotation_def cumsum_def length_cumsum_from)
  from cumsum_from_mono [OF nonneg len, of 0] assms(1) len
  show ?thesis
    by (simp add: cumulative_rotation_def cumsum_def length_cumsum_from mult_right_mono)
qed

lemma cumulative_rotation_nth:
  assumes "i < length gx" "length gy = length gx" "length gz = length gx"
  shows "cumulative_rotation d gx gy gz ! i =
           (\<Sum>j\<le>i. \<bar>gx ! j\<bar> + \<bar>gy ! j\<bar> + \<bar>gz ! j\<bar>) * d"
proof -
  let ?xs = "map2 (+) (map2 (+) (map abs gx) (map abs gy)) (map abs gz)"
  from assms have len: "i < length ?xs" by simp
  have "sum_list (take (Suc i) ?xs) = (\<Sum>j<Suc i. take (Suc i) ?xs ! j)"
    using len by (simp add: sum_list_sum_nth atLeast0LessThan)
  also have "\<dots> = (\<Sum>j<Suc i. \<bar>gx ! j\<bar> + \<bar>gy ! j\<bar> + \<bar>gz ! j\<bar>)"
    using assms by (intro sum.cong) simp_all
  finally have "sum_list (take (Suc i) ?xs) = (\<Sum>j\<le>i. \<bar>gx ! j\<bar> + \<bar>gy ! j\<bar> + \<bar>gz ! j\<bar>)"
    by (simp add: lessThan_Suc_atMost)
  with len show ?thesis
    by (simp add: cumulative_rotation_def cumsum_def cumsum_from_nth length_cumsum_from)
qed

text \<open>
  Claim C6: for a pipeline object built by the constructor and a frame whose rolling
  window has at least 10 samples, \<^verbatim>\<open>extract_advanced_features\<close> returns for each sensor
  the running sum of \<open>|gyro_x| + |gyro_y| + |gyro_z|\<close> times the sample period as
  \<^verbatim>\<open>cumulative_rotation\<close>, and each entry is at least the entry before it.
\<close>

theorem cumulative_rotation_non_decreasing:
  assumes init: "init sr ws = Inr self"
    and df: "df < length s"
    and w: "10 \<le> min (feature_window self * sample_rate self) (int (nrows (s ! df)))"
    and cols: "num_col (s ! df) ''s1_pitch'' = Some p1"
      "num_col (s ! df) ''s2_pitch'' = Some p2"
      "num_col (s ! df) ''spine_curvature_magnitude'' = Some m"
      "num_col (s ! df) ''s1_gyro_x'' = Some gx1"
      "num_col (s ! df) ''s1_gyro_y'' = Some gy1"
      "num_col (s ! df) ''s1_gyro_z'' = Some gz1"
      "num_col (s ! df) ''s2_gyro_x'' = Some gx2"
      "num_col (s ! df) ''s2_gyro_y'' = Some gy2"
      "num_col (s ! df) ''s2_gyro_z'' = Some gz2"
  shows "\<exists>d' c1 c2.
           extract_advanced_features self df s = (Inr (length s), s @ [d']) \<and>
           num_col d' ''s1_cumulative_rotation'' = Some c1 \<and>
           num_col d' ''s2_cumulative_rotation'' = Some c2 \<and>
           (\<forall>i<nrows (s ! df).
              c1 ! i = (\<Sum>j\<le>i. \<bar>gx1 ! j\<bar> + \<bar>gy1 ! j\<bar> + \<bar>gz1 ! j\<bar>) * dt self \<and>
              c2 ! i = (\<Sum>j\<le>i. \<bar>gx2 ! j\<bar> + \<bar>gy2 ! j\<bar> + \<bar>gz2 ! j\<bar>) * dt self) \<and>
           (\<forall>i. Suc i < nrows (s ! df) \<longrightarrow> c1 ! i \<le> c1 ! Suc i \<and> c2 ! i \<le> c2 ! Suc i)"
proof -
  note len = cols [THEN num_col_length]
  from init_fields [OF init] w have "0 < sr" and dt: "dt self = 1 / of_int sr"
    by auto
  then have dt0: "0 \<le> dt self" by simp
  let ?c1 = "cumulative_rotation (dt self) gx1 gy1 gz1"
  let ?c2 = "cumulative_rotation (dt self) gx2 gy2 gz2"
  from extract_advanced_features_exec [OF df w cols refl]
  obtain d' where run: "extract_advanced_features self df s = (Inr (length s), s @ [d'])"
    and c: "num_col d' ''s1_cumulative_rotation'' = Some ?c1"
      "num_col d' ''s2_cumulative_rotation'' = Some ?c2"
    by blast
  have sums: "\<forall>i<nrows (s ! df).
      ?c1 ! i = (\<Sum>j\<le>i. \<bar>gx1 ! j\<bar> + \<bar>gy1 ! j\<bar> + \<bar>gz1 ! j\<bar>) * dt self \<and>
      ?c2 ! i = (\<Sum>j\<le>i. \<bar>gx2 ! j\<bar> + \<bar>gy2 ! j\<bar> + \<bar>gz2 ! j\<bar>) * dt self"
    using len by (simp add: cumulative_rotation_nth)
  have mono: "\<forall>i. Suc i < nrows (s ! df) \<longrightarrow> ?c1 ! i \<le> ?c1 ! Suc i \<and> ?c2 ! i \<le> ?c2 ! Suc i"
    using len dt0 by (simp add: cumulative_rotation_mono length_cumulative_rotation)
  from run c sums mono show ?thesis by blast
qed

lemma ramp_frame_columns:
  "num_col ([ramp_frame] ! 0) ''s1_pitch'' = Some [0, 1, 2, 3, 4, 5, 6, 7, 8, 9]"
  "num_col ([ramp_frame] ! 0) ''s2_pitch'' = Some [0, 0, 0, 0, 0, 0, 0, 0, 0, 0]"
  "num_col ([ramp_frame] ! 0) ''spine_curvature_magnitude'' = Some [0, 1, 2, 3, 4, 5, 6, 7, 8, 9]"
  "num_col ([ramp_frame] ! 0) ''s1_gyro_x'' = Some [1, 1, 1, 1, 1, 1, 1, 1, 1, 1]"
  "num_col ([ramp_frame] ! 0) ''s1_gyro_y'' = Some [0, 0, 0, 0, 0, 0, 0, 0, 0, 0]"
  "num_col ([ramp_frame] ! 0) ''s1_gyro_z'' = Some [0, 0, 0, 0, 0, 0, 0, 0, 0, 0]"
  "num_col ([ramp_frame] ! 0) ''s2_gyro_x'' = Some [0, 0, 0, 0, 0, 0, 0, 0, 0, 0]"
  "num_col ([ramp_frame] ! 0) ''s2_gyro_y'' = Some [0, 0, 0, 0, 0, 0, 0, 0, 0, 0]"
  "num_col ([ramp_frame] ! 0) ''s2_gyro_z'' = Some [0, 0, 0, 0, 0, 0, 0, 0, 0, 0]"
  by (simp_all add: num_col_def ramp_frame_def)

lemma ramp_frame_window:
  "10 \<le> min (feature_window default_self * sample_rate default_self)
           (int (nrows ([ramp_frame] ! 0)))"
  by (simp add: default_self_def ramp_frame_def)

theorem cumulative_rotation_non_decreasing_witness:
  "init 10 50 = Inr default_self \<and>
   10 \<le> min (feature_window default_self * sample_rate default_self) (int (nrows ramp_frame)) \<and>
   (\<exists>d' c1 c2.
      extract_advanced_features default_self 0 [ramp_frame] = (Inr 1, [ramp_frame, d']) \<and>
      num_col d' ''s1_cumulative_rotation'' = Some c1 \<and>
      num_col d' ''s2_cumulative_rotation'' = Some c2 \<and>
      c1 ! 0 = 1 / 10 \<and> c1 ! 0 \<le> c1 ! 1 \<and> c2 ! 0 \<le> c2 ! 1)"
proof -
  have df: "0 < length [ramp_frame]" by simp
  have n: "nrows ([ramp_frame] ! 0) = 10" by (simp add: ramp_frame_def)
  from cumulative_rotation_non_decreasing
    [OF init_default df ramp_frame_window ramp_frame_columns]
  obtain d' c1 c2 where
    run: "extract_advanced_features default_self 0 [ramp_frame] =
            (Inr (length [ramp_frame]), [ramp_frame] @ [d'])"
    and c: "num_col d' ''s1_cumulative_rotation'' = Some c1"
      "num_col d' ''s2_cumulative_rotation'' = Some c2"
    and sums: "\<forall>i<nrows ([ramp_frame] ! 0).
      c1 ! i = (\<Sum>j\<le>i. \<bar>[1, 1, 1, 1, 1, 1, 1, 1, 1, 1] ! j\<bar>
                        + \<bar>[0, 0, 0, 0, 0, 0, 0, 0, 0, 0] ! j\<bar>
                        + \<bar>[0, 0, 0, 0, 0, 0, 0, 0, 0, 0] ! j\<bar>) * dt default_self \<and>
      c2 ! i = (\<Sum>j\<le>i. \<bar>[0, 0, 0, 0, 0, 0, 0, 0, 0, 0] ! j\<bar>
                        + \<bar>[0, 0, 0, 0, 0, 0, 0, 0, 0, 0] ! j\<bar>
                        + \<bar>[0, 0, 0, 0, 0, 0, 0, 0, 0, 0] ! j\<bar>) * dt default_self"
    and mono: "\<forall>i. Suc i < nrows ([ramp_frame] ! 0) \<longrightarrow>
                 c1 ! i \<le> c1 ! Suc i \<and> c2 ! i \<le> c2 ! Suc i"
    by blast
  from sums n have "c1 ! 0 = 1 / 10" by (simp add: default_self_def)
  moreover from mono n have "c1 ! 0 \<le> c1 ! 1 \<and> c2 ! 0 \<le> c2 ! 1" by simp
  ultimately show ?thesis
    using run c init_default ramp_frame_window by simp
qed

lemma velocity_early:
  assumes "i < 2" "i < length xs"
  shows "length (valid (window 5 (diff (map Some xs)) i)) < 2"
proof (cases xs)
  case Nil
  with assms show ?thesis by simp
next
  case (Cons x ys)
  show ?thesis
  proof (cases i)
    case 0
    with Cons show ?thesis by (simp add: window_def diff_def valid_def)
  next
    case (Suc j)
    with assms have j: "i = 1" by simp
    with assms Cons obtain y zs where "ys = y # zs" by (cases ys) auto
    with Cons j show ?thesis by (simp add: window_def diff_def valid_def)
  qed
qed

text \<open>
  Claim C5, as stated, fails for the pitch velocity, whose rolling mean asks for two
  valid observations, not five.  On ten samples at 10 Hz with the sensor-1 pitch rising
  by one degree per sample, the 5-sample window of index 2 holds three differences, two
  of them numbers, and the velocity there is 1, not 0.
\<close>

theorem velocity_nonzero_below_five_samples:
  "fst (extract_advanced_features default_self 0 [ramp_frame]) = Inr 1 \<and>
   num_col (snd (extract_advanced_features default_self 0 [ramp_frame]) ! 1)
       ''s1_pitch_velocity'' = Some (velocity [0, 1, 2, 3, 4, 5, 6, 7, 8, 9]) \<and>
   velocity [0, 1, 2, 3, 4, 5, 6, 7, 8, 9] ! 2 = 1 \<and>
   length (window 5 (diff (map Some [0, 1, 2, 3, 4, 5, 6, 7, 8, 9 :: real])) 2) = 3 \<and>
   length (valid (window 5 (diff (map Some [0, 1, 2, 3, 4, 5, 6, 7, 8, 9 :: real])) 2)) = 2"
proof -
  have df: "0 < length [ramp_frame]" by simp
  from extract_advanced_features_exec
    [OF df ramp_frame_window ramp_frame_columns refl]
  obtain d' where run: "extract_advanced_features default_self 0 [ramp_frame] =
      (Inr (length [ramp_frame]), [ramp_frame] @ [d'])"
    and v: "num_col d' ''s1_pitch_velocity'' = Some (velocity [0, 1, 2, 3, 4, 5, 6, 7, 8, 9])"
    by blast
  have w: "window 5 (diff (map Some [0, 1, 2, 3, 4, 5, 6, 7, 8, 9 :: real])) 2
             = [None, Some 1, Some 1]"
    by (simp add: window_def diff_def)
  have "velocity [0, 1, 2, 3, 4, 5, 6, 7, 8, 9] ! 2 = 1"
    by (simp add: nth_velocity valid_def mean_def window_def diff_def)
  moreover
  have "length (window 5 (diff (map Some [0, 1, 2, 3, 4, 5, 6, 7, 8, 9 :: real])) 2) = 3"
    "length (valid (window 5 (diff (map Some [0, 1, 2, 3, 4, 5, 6, 7, 8, 9 :: real])) 2)) = 2"
    unfolding w by (simp_all add: valid_def)
  ultimately show ?thesis using run v by simp
qed

text \<open>
  Claim C5, amended: in the frame that \<^verbatim>\<open>extract_advanced_features\<close> returns, the three
  rolling deviations (the movement variability of each sensor and the spine stability)
  are zero at every index whose window holds fewer than 5 valid samples, which are the
  indices below 4; the two pitch velocities are zero at every index whose 5-sample window
  holds fewer than 2 valid differences, which are the indices below 2; and when the
  series has fewer than 10 samples, each of the nine features is zero at every index.
\<close>

theorem rolling_features_zero:
  assumes df: "df < length s"
    and cols: "num_col (s ! df) ''s1_pitch'' = Some p1"
      "num_col (s ! df) ''s2_pitch'' = Some p2"
      "num_col (s ! df) ''spine_curvature_magnitude'' = Some m"
      "num_col (s ! df) ''s1_gyro_x'' = Some gx1"
      "num_col (s ! df) ''s1_gyro_y'' = Some gy1"
      "num_col (s ! df) ''s1_gyro_z'' = Some gz1"
      "num_col (s ! df) ''s2_gyro_x'' = Some gx2"
      "num_col (s ! df) ''s2_gyro_y'' = Some gy2"
      "num_col (s ! df) ''s2_gyro_z'' = Some gz2"
    and wn: "wn = nat (min (feature_window self * sample_rate self) (int (nrows (s ! df))))"
  shows "\<exists>d' v1 v2 sst vel1 vel2.
           extract_advanced_features self df s = (Inr (length s), s @ [d']) \<and>
           nrows d' = nrows (s ! df) \<and>
           num_col d' ''s1_movement_variability'' = Some v1 \<and>
           num_col d' ''s2_movement_variability'' = Some v2 \<and>
           num_col d' ''spine_stability'' = Some sst \<and>
           num_col d' ''s1_pitch_velocity'' = Some vel1 \<and>
           num_col d' ''s2_pitch_velocity'' = Some vel2 \<and>
           (\<forall>i<nrows (s ! df).
              (length (valid (window wn (map Some p1) i)) < 5 \<longrightarrow> v1 ! i = 0) \<and>
              (length (valid (window wn (map Some p2) i)) < 5 \<longrightarrow> v2 ! i = 0) \<and>
              (length (valid (window wn (map Some m) i)) < 5 \<longrightarrow> sst ! i = 0) \<and>
              (length (valid (window 5 (diff (map Some p1)) i)) < 2 \<longrightarrow> vel1 ! i = 0) \<and>
              (length (valid (window 5 (diff (map Some p2)) i)) < 2 \<longrightarrow> vel2 ! i = 0) \<and>
              (i < 4 \<longrightarrow> v1 ! i = 0 \<and> v2 ! i = 0 \<and> sst ! i = 0) \<and>
              (i < 2 \<longrightarrow> vel1 ! i = 0 \<and> vel2 ! i = 0)) \<and>
           (nrows (s ! df) < 10 \<longrightarrow>
              (\<forall>name\<in>set feature_columns.
                 num_col d' name = Some (replicate (nrows (s ! df)) 0)))"
proof (cases "10 \<le> min (feature_window self * sample_rate self) (int (nrows (s ! df)))")
  case True
  note len = cols [THEN num_col_length]
  from True wn have wn10: "10 \<le> wn" and n10: "\<not> nrows (s ! df) < 10" by auto
  from extract_advanced_features_exec [OF df True cols wn]
  obtain d' where run: "extract_advanced_features self df s = (Inr (length s), s @ [d'])"
      "nrows d' = nrows (s ! df)"
      "num_col d' ''s1_movement_variability'' = Some (variability wn p1)"
      "num_col d' ''s2_movement_variability'' = Some (variability wn p2)"
      "num_col d' ''spine_stability'' = Some (variability wn m)"
      "num_col d' ''s1_pitch_velocity'' = Some (velocity p1)"
      "num_col d' ''s2_pitch_velocity'' = Some (velocity p2)"
    by blast
  have var: "\<And>xs i. i < length xs \<Longrightarrow>
      (length (valid (window wn (map Some xs) i)) < 5 \<longrightarrow> variability wn xs ! i = 0) \<and>
      (i < 4 \<longrightarrow> variability wn xs ! i = 0)"
    using wn10 by (auto simp: nth_variability window_map valid_map_Some length_window)
  have vel: "\<And>xs i. i < length xs \<Longrightarrow>
      (length (valid (window 5 (diff (map Some xs)) i)) < 2 \<longrightarrow> velocity xs ! i = 0) \<and>
      (i < 2 \<longrightarrow> velocity xs ! i = 0)"
    using velocity_early by (auto simp: nth_velocity)
  have rows: "\<forall>i<nrows (s ! df).
      (length (valid (window wn (map Some p1) i)) < 5 \<longrightarrow> variability wn p1 ! i = 0) \<and>
      (length (valid (window wn (map Some p2) i)) < 5 \<longrightarrow> variability wn p2 ! i = 0) \<and>
      (length (valid (window wn (map Some m) i)) < 5 \<longrightarrow> variability wn m ! i = 0) \<and>
      (length (valid (window 5 (diff (map Some p1)) i)) < 2 \<longrightarrow> velocity p1 ! i = 0) \<and>
      (length (valid (window 5 (diff (map Some p2)) i)) < 2 \<longrightarrow> velocity p2 ! i = 0) \<and>
      (i < 4 \<longrightarrow> variability wn p1 ! i = 0 \<and> variability wn p2 ! i = 0 \<and>
         variability wn m ! i = 0) \<and>
      (i < 2 \<longrightarrow> velocity p1 ! i = 0 \<and> velocity p2 ! i = 0)"
    using len var [of _ p1] var [of _ p2] var [of _ m] vel [of _ p1] vel [of _ p2]
    by simp
  from run rows n10 show ?thesis by blast
next
  case False
  then have short: "min (feature_window self * sample_rate self) (int (nrows (s ! df))) < 10"
    by linarith
  let ?z = "replicate (nrows (s ! df)) (0 :: real)"
  from extract_advanced_features_short [OF df short]
  obtain d' where run: "extract_advanced_features self df s = (Inr (length s), s @ [d'])"
      "nrows d' = nrows (s ! df)"
    and zeros: "\<forall>name\<in>set feature_columns. num_col d' name = Some ?z"
    by blast
  from zeros have z: "num_col d' ''s1_movement_variability'' = Some ?z"
      "num_col d' ''s2_movement_variability'' = Some ?z"
      "num_col d' ''spine_stability'' = Some ?z"
      "num_col d' ''s1_pitch_velocity'' = Some ?z"
      "num_col d' ''s2_pitch_velocity'' = Some ?z"
    by (simp_all add: feature_columns_def)
  have rows: "\<forall>i<nrows (s ! df).
      (length (valid (window wn (map Some p1) i)) < 5 \<longrightarrow> ?z ! i = 0) \<and>
      (length (valid (window wn (map Some p2) i)) < 5 \<longrightarrow> ?z ! i = 0) \<and>
      (length (valid (window wn (map Some m) i)) < 5 \<longrightarrow> ?z ! i = 0) \<and>
      (length (valid (window 5 (diff (map Some p1)) i)) < 2 \<longrightarrow> ?z ! i = 0) \<and>
      (length (valid (window 5 (diff (map Some p2)) i)) < 2 \<longrightarrow> ?z ! i = 0) \<and>
      (i < 4 \<longrightarrow> ?z ! i = 0 \<and> ?z ! i = 0 \<and> ?z ! i = 0) \<and>
      (i < 2 \<longrightarrow> ?z ! i = 0 \<and> ?z ! i = 0)"
    by simp
  from run z rows zeros show ?thesis by blast
qed

lemma short_ramp_frame_columns:
  "num_col ([short_ramp_frame] ! 0) ''s1_pitch'' = Some [0, 1]"
  "num_col ([short_ramp_frame] ! 0) ''s2_pitch'' = Some [0, 0]"
  "num_col ([short_ramp_frame] ! 0) ''spine_curvature_magnitude'' = Some [0, 1]"
  "num_col ([short_ramp_frame] ! 0) ''s1_gyro_x'' = Some [1, 1]"
  "num_col ([short_ramp_frame] ! 0) ''s1_gyro_y'' = Some [0, 0]"
  "num_col ([short_ramp_frame] ! 0) ''s1_gyro_z'' = Some [0, 0]"
  "num_col ([short_ramp_frame] ! 0) ''s2_gyro_x'' = Some [0, 0]"
  "num_col ([short_ramp_frame] ! 0) ''s2_gyro_y'' = Some [0, 0]"
  "num_col ([short_ramp_frame] ! 0) ''s2_gyro_z'' = Some [0, 0]"
  by (simp_all add: num_col_def short_ramp_frame_def)

theorem rolling_features_zero_witness:
  "(\<exists>d' v1 sst vel1.
      extract_advanced_features default_self 0 [ramp_frame] = (Inr 1, [ramp_frame, d']) \<and>
      num_col d' ''s1_movement_variability'' = Some v1 \<and>
      num_col d' ''spine_stability'' = Some sst \<and>
      num_col d' ''s1_pitch_velocity'' = Some vel1 \<and>
      v1 ! 3 = 0 \<and> sst ! 3 = 0 \<and> vel1 ! 1 = 0) \<and>
   nrows short_ramp_frame < 10 \<and>
   (\<exists>d'. extract_advanced_features default_self 0 [short_ramp_frame] =
            (Inr 1, [short_ramp_frame, d']) \<and>
         (\<forall>name\<in>set feature_columns. num_col d' name = Some [0, 0]))"
proof -
  have n: "nrows ramp_frame = 10" by (simp add: ramp_frame_def)
  have df: "0 < length [ramp_frame]" by simp
  have first: "\<exists>d' v1 sst vel1.
      extract_advanced_features default_self 0 [ramp_frame] = (Inr 1, [ramp_frame, d']) \<and>
      num_col d' ''s1_movement_variability'' = Some v1 \<and>
      num_col d' ''spine_stability'' = Some sst \<and>
      num_col d' ''s1_pitch_velocity'' = Some vel1 \<and>
      v1 ! 3 = 0 \<and> sst ! 3 = 0 \<and> vel1 ! 1 = 0"
    using rolling_features_zero [OF df ramp_frame_columns refl, of default_self]
    apply (elim exE conjE)
    subgoal for d' v1 v2 sst vel1 vel2
      apply (rule exI [of _ d'], rule exI [of _ v1], rule exI [of _ sst],
          rule exI [of _ vel1])
      apply (frule spec [of _ 3], drule spec [of _ 1])
      apply (simp add: n)
      done
    done
  have m: "nrows short_ramp_frame = 2" by (simp add: short_ramp_frame_def)
  have df': "0 < length [short_ramp_frame]" by simp
  have second: "\<exists>d'. extract_advanced_features default_self 0 [short_ramp_frame] =
            (Inr 1, [short_ramp_frame, d']) \<and>
         (\<forall>name\<in>set feature_columns. num_col d' name = Some [0, 0])"
    using rolling_features_zero [OF df' short_ramp_frame_columns refl, of default_self]
    apply (elim exE conjE)
    subgoal for d' v1 v2 sst vel1 vel2
      apply (rule exI [of _ d'])
      apply (simp add: m numeral_2_eq_2)
      done
    done
  from first second m show ?thesis by simp
qed

section \<open>Outlier suppression\<close>

lemma variance_nonneg: "0 \<le> variance xs"
  by (auto simp: variance_def intro!: divide_nonneg_nonneg sum_list_nonneg)

lemma masked_assign:
  "map (\<lambda>(x, out). if out then m else x) (zip ys (map P ys)) =
   map (\<lambda>x. if P x then m else x) ys"
  by (induction ys) simp_all

lemma three_sigma_squares: "0 \<le> v \<Longrightarrow> (3 * sqrt v < \<bar>d\<bar>) = (9 * v < d\<^sup>2)"
proof -
  assume v: "0 \<le> v"
  have "3 * sqrt v = sqrt (9 * v)" by (simp add: real_sqrt_mult)
  moreover have "\<bar>d\<bar> = sqrt (d\<^sup>2)" by simp
  ultimately show ?thesis by (simp only: real_sqrt_less_iff)
qed

lemma outlier_mask_squares:
  "2 \<le> length xs \<Longrightarrow>
   outlier_mask xs = map (\<lambda>x. 9 * variance xs < (x - sum_list xs / real (length xs))\<^sup>2) xs"
  by (auto simp: outlier_mask_def mean_def std_def three_sigma_squares variance_nonneg)

lemma outlier_mask_short: "length xs < 2 \<Longrightarrow> outlier_mask xs = map (\<lambda>x. False) xs"
  by (auto simp: outlier_mask_def std_def split: option.splits)

lemma length_outlier_mask: "length (outlier_mask xs) = length xs"
  by (auto simp: outlier_mask_def split: option.splits prod.splits)

lemma length_suppress_outliers: "length (suppress_outliers xs) = length xs"
  by (simp add: suppress_outliers_def length_outlier_mask split: option.splits)

lemma suppress_outliers_fixed:
  "(suppress_outliers ys = ys) = (True \<notin> set (outlier_mask ys))"
proof (cases "2 \<le> length ys")
  case False
  then have "length ys < 2" by simp
  then show ?thesis
    by (simp add: suppress_outliers_def outlier_mask_short masked_assign
        split: option.splits)
next
  case True
  then have ne: "ys \<noteq> []" by auto
  let ?m = "sum_list ys / real (length ys)"
  let ?out = "\<lambda>x. 9 * variance ys < (x - ?m)\<^sup>2"
  have sup: "suppress_outliers ys = map (\<lambda>x. if ?out x then ?m else x) ys"
    using True ne
    by (simp add: suppress_outliers_def mean_def outlier_mask_squares masked_assign)
  have flagged: "\<And>x. ?out x \<Longrightarrow> x \<noteq> ?m"
  proof
    fix x assume "?out x" "x = ?m"
    then have "9 * variance ys < 0" by simp
    with variance_nonneg [of ys] show False by simp
  qed
  show ?thesis
  proof
    assume fixed: "suppress_outliers ys = ys"
    show "True \<notin> set (outlier_mask ys)"
    proof
      assume "True \<in> set (outlier_mask ys)"
      then obtain x where x: "x \<in> set ys" "?out x"
        using True by (auto simp: outlier_mask_squares)
      then obtain i where i: "i < length ys" "ys ! i = x"
        by (auto simp: in_set_conv_nth)
      from fixed have "suppress_outliers ys ! i = ys ! i" by simp
      with i x have "?m = x" by (simp add: sup)
      with flagged [OF x(2)] show False by simp
    qed
  next
    assume "True \<notin> set (outlier_mask ys)"
    then have "\<forall>x\<in>set ys. \<not> ?out x"
      using True by (auto simp: outlier_mask_squares)
    then show "suppress_outliers ys = ys"
      by (simp add: sup map_idI)
  qed
qed

text \<open>
  Claim C3, as stated, fails: the step recomputes the mean and the deviation of what it
  is given.  On a channel of ten samples 0 and one sample 11 the first application
  replaces the 11 by the mean 1, and a second application replaces that 1 by the new
  mean 1/11.
\<close>

theorem suppress_outliers_not_idempotent:
  "suppress_outliers [0, 0, 0, 0, 0, 0, 0, 0, 0, 0, 11] = [0, 0, 0, 0, 0, 0, 0, 0, 0, 0, 1] \<and>
   suppress_outliers (suppress_outliers [0, 0, 0, 0, 0, 0, 0, 0, 0, 0, 11])
     = [0, 0, 0, 0, 0, 0, 0, 0, 0, 0, 1 / 11] \<and>
   suppress_outliers (suppress_outliers [0, 0, 0, 0, 0, 0, 0, 0, 0, 0, 11])
     \<noteq> suppress_outliers [0, 0, 0, 0, 0, 0, 0, 0, 0, 0, 11]"
proof -
  have one: "suppress_outliers [0, 0, 0, 0, 0, 0, 0, 0, 0, 0, 11]
               = [0, 0, 0, 0, 0, 0, 0, 0, 0, 0, 1]"
    by (simp add: suppress_outliers_def mean_def outlier_mask_squares variance_def
        power2_eq_square)
  have two: "suppress_outliers [0, 0, 0, 0, 0, 0, 0, 0, 0, 0, 1]
               = [0, 0, 0, 0, 0, 0, 0, 0, 0, 0, 1 / 11]"
    by (simp add: suppress_outliers_def mean_def outlier_mask_squares variance_def
        power2_eq_square)
  show ?thesis by (simp add: one two)
qed

text \<open>
  Claim C3, amended: the step keeps the length of the series, and it leaves a series
  unchanged exactly when none of its values is farther than three deviations from its
  mean.  Applied a second time to its own output, it leaves the output unchanged if and
  only if the output, with its own mean and deviation, has no such value; this is so for
  every series of fewer than two samples.
\<close>

theorem suppress_outliers_twice:
  "length (suppress_outliers xs) = length xs \<and>
   ((suppress_outliers xs = xs) = (True \<notin> set (outlier_mask xs))) \<and>
   ((suppress_outliers (suppress_outliers xs) = suppress_outliers xs)
      = (True \<notin> set (outlier_mask (suppress_outliers xs)))) \<and>
   (length xs < 2 \<longrightarrow> suppress_outliers (suppress_outliers xs) = suppress_outliers xs)"
proof -
  have "length xs < 2 \<longrightarrow> suppress_outliers (suppress_outliers xs) = suppress_outliers xs"
    by (simp add: suppress_outliers_fixed length_suppress_outliers outlier_mask_short)
  then show ?thesis
    by (simp add: length_suppress_outliers suppress_outliers_fixed)
qed

theorem suppress_outliers_twice_witness:
  "length [5 :: real] < 2 \<and>
   suppress_outliers (suppress_outliers [5]) = suppress_outliers [5] \<and>
   True \<notin> set (outlier_mask [1, 2, 3]) \<and>
   suppress_outliers [1, 2, 3] = [1, 2, 3]"
proof -
  have "True \<notin> set (outlier_mask [1, 2, 3])"
    by (simp add: outlier_mask_squares variance_def power2_eq_square)
  with suppress_outliers_twice [of "[5]"] suppress_outliers_twice [of "[1, 2, 3]"]
  show ?thesis by simp
qed

section \<open>Preprocessing short series\<close>

lemma remove_outliers_top:
  "num_col d col = Some xs \<Longrightarrow>
   remove_outliers (length s) col (s @ [d]) =
     (Inr (), s @ [set_col col (floats (suppress_outliers xs)) d])"
  by (simp add: remove_outliers_def bind_apply get_float_top setitem_top length_floats
      length_suppress_outliers num_col_length)

lemma remove_outliers_loop:
  assumes "num_col d ''s1_accel_x'' = Some ax1"
    and "num_col d ''s1_accel_y'' = Some ay1"
    and "num_col d ''s1_accel_z'' = Some az1"
    and "num_col d ''s2_accel_x'' = Some ax2"
    and "num_col d ''s2_accel_y'' = Some ay2"
    and "num_col d ''s2_accel_z'' = Some az2"
  shows "\<exists>d'. for_each accel_columns (remove_outliers (length s)) (s @ [d]) =
                 (Inr (), s @ [d']) \<and>
              nrows d' = nrows d \<and>
              num_col d' ''s1_accel_x'' = Some (suppress_outliers ax1) \<and>
              num_col d' ''s1_accel_y'' = Some (suppress_outliers ay1) \<and>
              num_col d' ''s1_accel_z'' = Some (suppress_outliers az1) \<and>
              num_col d' ''s2_accel_x'' = Some (suppress_outliers ax2) \<and>
              num_col d' ''s2_accel_y'' = Some (suppress_outliers ay2) \<and>
              num_col d' ''s2_accel_z'' = Some (suppress_outliers az2) \<and>
              (\<forall>name. name \<notin> set accel_columns \<longrightarrow> num_col d' name = num_col d name)"
proof -
  note len = assms [THEN num_col_length]
  show ?thesis
    using assms len
    by (simp add: accel_columns_def bind_apply remove_outliers_top num_col_set_col_floats
        nrows_set_col length_suppress_outliers return_apply)
qed

lemma lowpass_column_raises:
  assumes "num_col d col = Some x" and "2 * order self < nrows d"
    and "nrows d \<le> 3 * max (length a) (length b)"
  shows "lowpass_column lib self b a (length s) col (s @ [d]) = (Inl ValueError, s @ [d])"
  using assms num_col_length [OF assms(1)]
  by (simp add: lowpass_column_def bind_apply len_df_top get_float_top filtfilt_def lift_apply)

text \<open>
  Where claim C2 breaks: at a sample rate above 6 Hz the low-pass filter is applied to
  every series of more than \<open>2 \<times> order = 8\<close> samples, but \<^verbatim>\<open>filtfilt\<close> needs more than
  \<open>3 \<times> (order + 1) = 15\<close>.  For every series of 9 to 15 samples that has the
  accelerometer channels, \<^verbatim>\<open>preprocess_data\<close> raises \<^verbatim>\<open>ValueError\<close>.
\<close>

theorem preprocess_data_raises_on_short_series:
  assumes lib: "numlib_ok lib"
    and init: "init sr ws = Inr self"
    and sr: "6 < sr"
    and df: "df < length s"
    and cols: "num_col (s ! df) ''s1_accel_x'' = Some ax1"
      "num_col (s ! df) ''s1_accel_y'' = Some ay1"
      "num_col (s ! df) ''s1_accel_z'' = Some az1"
      "num_col (s ! df) ''s2_accel_x'' = Some ax2"
      "num_col (s ! df) ''s2_accel_y'' = Some ay2"
      "num_col (s ! df) ''s2_accel_z'' = Some az2"
    and n: "9 \<le> nrows (s ! df)" "nrows (s ! df) \<le> 15"
  shows "fst (preprocess_data lib self df s) = Inl ValueError"
proof -
  from init_fields [OF init]
  have self: "sample_rate self = sr" "order self = 4" "lowpass_cutoff self = 3"
    by simp_all
  from sr have nyq: "3 < real_of_int sr / 2" by simp
  obtain b a where ba: "butter lib 4 (6 / real_of_int sr) = (b, a)"
    by (cases "butter lib 4 (6 / real_of_int sr)")
  from lib have "length (fst (butter lib 4 (6 / real_of_int sr))) = 5"
    "length (snd (butter lib 4 (6 / real_of_int sr))) = 5"
    by (simp_all add: numlib_ok_def)
  with ba have taps: "length b = 5" "length a = 5" by simp_all
  from remove_outliers_loop [OF cols, of s]
  obtain d' where loop: "for_each accel_columns (remove_outliers (length s)) (s @ [s ! df]) =
      (Inr (), s @ [d'])"
    and n': "nrows d' = nrows (s ! df)"
    and x: "num_col d' ''s1_accel_x'' = Some (suppress_outliers ax1)"
    by blast
  have "lowpass_column lib self b a (length s) ''s1_accel_x'' (s @ [d']) =
          (Inl ValueError, s @ [d'])"
    using n n' taps self by (intro lowpass_column_raises [OF x]) simp_all
  then have "for_each filter_columns (lowpass_column lib self b a (length s)) (s @ [d']) =
          (Inl ValueError, s @ [d'])"
    by (simp add: filter_columns_def bind_apply)
  then show ?thesis
    unfolding preprocess_data_def
    using df nyq
    by (simp add: bind_apply df_copy_apply loop self ba Let_def)
qed

lemma nine_sample_frame_columns:
  "num_col ([nine_sample_frame] ! 0) ''s1_accel_x'' = Some (replicate 9 0)"
  "num_col ([nine_sample_frame] ! 0) ''s1_accel_y'' = Some (replicate 9 0)"
  "num_col ([nine_sample_frame] ! 0) ''s1_accel_z'' = Some (replicate 9 (98 / 10))"
  "num_col ([nine_sample_frame] ! 0) ''s2_accel_x'' = Some (replicate 9 0)"
  "num_col ([nine_sample_frame] ! 0) ''s2_accel_y'' = Some (replicate 9 0)"
  "num_col ([nine_sample_frame] ! 0) ''s2_accel_z'' = Some (replicate 9 (98 / 10))"
  by (simp_all add: num_col_def nine_sample_frame_def list_all_iff)

lemma plain_numlib_ok: "numlib_ok plain_numlib"
  by (simp add: numlib_ok_def plain_numlib_def)

theorem preprocess_data_raises_on_short_series_witness:
  "numlib_ok plain_numlib \<and> init 10 50 = Inr default_self \<and> nrows nine_sample_frame = 9 \<and>
   fst (preprocess_data plain_numlib default_self 0 [nine_sample_frame]) = Inl ValueError"
proof -
  have df: "0 < length [nine_sample_frame]" by simp
  have n: "nrows nine_sample_frame = 9" by (simp add: nine_sample_frame_def)
  then have n9: "9 \<le> nrows ([nine_sample_frame] ! 0)" "nrows ([nine_sample_frame] ! 0) \<le> 15"
    by simp_all
  have sr: "(6 :: int) < 10" by simp
  from preprocess_data_raises_on_short_series
    [OF plain_numlib_ok init_default sr df nine_sample_frame_columns n9]
  show ?thesis using plain_numlib_ok init_default n by simp
qed

text \<open>
  Outside these lengths the preprocessor does return a frame of as many samples as it
  is given, with the twelve sensor channels: the invariant below holds after every column
  that the three loops rewrite.
\<close>

lemma for_each_invariant:
  assumes step: "\<And>col d. col \<in> set cs \<Longrightarrow> P d \<Longrightarrow>
                   \<exists>d'. f col (s @ [d]) = (Inr (), s @ [d']) \<and> P d'"
    and "P d"
  shows "\<exists>d'. for_each cs f (s @ [d]) = (Inr (), s @ [d']) \<and> P d'"
  using assms
proof (induction cs arbitrary: d)
  case Nil
  then show ?case by (simp add: return_apply)
next
  case (Cons c cs)
  from Cons.prems(1) [of c d] Cons.prems(2)
  obtain d1 where d1: "f c (s @ [d]) = (Inr (), s @ [d1])" "P d1" by auto
  from Cons.IH [of d1] Cons.prems(1) d1(2)
  obtain d' where "for_each cs f (s @ [d1]) = (Inr (), s @ [d'])" "P d'" by auto
  with d1 show ?case by (auto simp: bind_apply)
qed

lemma sensor_frame_set_col:
  "sensor_frame n d \<Longrightarrow> length ys = n \<Longrightarrow> sensor_frame n (set_col col (floats ys) d)"
  by (simp add: sensor_frame_def num_col_set_col_floats nrows_set_col)

lemma remove_outliers_step:
  assumes "col \<in> set filter_columns" "sensor_frame n d"
  shows "\<exists>d'. remove_outliers (length s) col (s @ [d]) = (Inr (), s @ [d']) \<and>
              sensor_frame n d'"
proof -
  from assms obtain xs where xs: "num_col d col = Some xs"
    by (auto simp: sensor_frame_def)
  from num_col_length [OF xs] assms(2) have "length (suppress_outliers xs) = n"
    by (simp add: length_suppress_outliers sensor_frame_def)
  with assms(2) show ?thesis
    by (simp add: remove_outliers_top [OF xs] sensor_frame_set_col)
qed

lemma lowpass_column_step:
  assumes lib: "numlib_ok lib"
    and long: "2 * order self < n \<longrightarrow> 3 * max (length a) (length b) < n"
    and col: "col \<in> set filter_columns" and fr: "sensor_frame n d"
  shows "\<exists>d'. lowpass_column lib self b a (length s) col (s @ [d]) = (Inr (), s @ [d']) \<and>
              sensor_frame n d'"
proof -
  from col fr obtain xs where xs: "num_col d col = Some xs"
    by (auto simp: sensor_frame_def)
  from num_col_length [OF xs] fr have len: "length xs = n" "nrows d = n"
    by (simp_all add: sensor_frame_def)
  from lib have out: "length (filtfilt_out lib b a xs) = length xs"
    by (simp add: numlib_ok_def)
  show ?thesis
  proof (cases "2 * order self < n")
    case True
    with long have "\<not> length xs \<le> 3 * max (length a) (length b)"
      using len by simp
    with True len out fr show ?thesis
      by (simp add: lowpass_column_def bind_apply len_df_top get_float_top [OF xs]
          filtfilt_def lift_apply setitem_top length_floats sensor_frame_set_col)
  next
    case False
    with len fr show ?thesis
      by (simp add: lowpass_column_def bind_apply len_df_top return_apply)
  qed
qed

lemma smooth_column_step:
  assumes lib: "numlib_ok lib" and n: "5 \<le> n"
    and col: "col \<in> set filter_columns" and fr: "sensor_frame n d"
  shows "\<exists>d'. smooth_column lib (length s) col (s @ [d]) = (Inr (), s @ [d']) \<and>
              sensor_frame n d'"
proof -
  from col fr obtain xs where xs: "num_col d col = Some xs"
    by (auto simp: sensor_frame_def)
  from num_col_length [OF xs] fr have len: "length xs = n" "nrows d = n"
    by (simp_all add: sensor_frame_def)
  from lib have out: "length (savgol_out lib xs 5 2) = length xs"
    by (simp add: numlib_ok_def)
  from n len out fr show ?thesis
    by (simp add: smooth_column_def bind_apply len_df_top get_float_top [OF xs]
        savgol_filter_def lift_apply setitem_top length_floats sensor_frame_set_col)
qed

lemma preprocess_data_keeps_length:
  assumes lib: "numlib_ok lib"
    and init: "init sr ws = Inr self"
    and df: "df < length s"
    and fr: "sensor_frame n (s ! df)"
    and n: "n \<le> 8 \<or> 16 \<le> n \<or> sr \<le> 6"
  shows "\<exists>d'. preprocess_data lib self df s = (Inr (length s), s @ [d']) \<and>
              sensor_frame n d'"
proof -
  from init_fields [OF init]
  have self: "sample_rate self = sr" "order self = 4" "lowpass_cutoff self = 3"
    by simp_all
  have sub: "set accel_columns \<subseteq> set filter_columns" "set gyro_columns \<subseteq> set filter_columns"
    by (auto simp: accel_columns_def gyro_columns_def filter_columns_def)
  from for_each_invariant [of accel_columns "sensor_frame n" "remove_outliers (length s)" s,
      OF _ fr] sub
  obtain d1 where d1: "for_each accel_columns (remove_outliers (length s)) (s @ [s ! df]) =
      (Inr (), s @ [d1])" "sensor_frame n d1"
    using remove_outliers_step by blast
  let ?filter = "(let nyquist = real_of_int (sample_rate self) / 2 in
           if lowpass_cutoff self < nyquist then
             (let (b, a) = butter lib (order self) (lowpass_cutoff self / nyquist)
              in for_each filter_columns (lowpass_column lib self b a (length s)))
           else return ())"
  have "\<exists>d2. ?filter (s @ [d1]) = (Inr (), s @ [d2]) \<and> sensor_frame n d2"
  proof (cases "lowpass_cutoff self < real_of_int (sample_rate self) / 2")
    case False
    with d1 show ?thesis by (simp add: return_apply)
  next
    case True
    with self have "\<not> sr \<le> 6" by simp
    with n have n': "n \<le> 8 \<or> 16 \<le> n" by simp
    obtain b a where ba:
      "butter lib (order self) (lowpass_cutoff self / (real_of_int (sample_rate self) / 2))
         = (b, a)"
      by (cases "butter lib (order self)
                   (lowpass_cutoff self / (real_of_int (sample_rate self) / 2))")
    from lib have "length (fst (butter lib (order self)
          (lowpass_cutoff self / (real_of_int (sample_rate self) / 2)))) = order self + 1"
      "length (snd (butter lib (order self)
          (lowpass_cutoff self / (real_of_int (sample_rate self) / 2)))) = order self + 1"
      unfolding numlib_ok_def by blast+
    with ba self have taps: "length b = 5" "length a = 5" by simp_all
    with n' self have long: "2 * order self < n \<longrightarrow> 3 * max (length a) (length b) < n"
      by auto
    from for_each_invariant [of filter_columns "sensor_frame n"
        "lowpass_column lib self b a (length s)" s, OF _ d1(2)]
      lowpass_column_step [OF lib long]
    obtain d2 where "for_each filter_columns (lowpass_column lib self b a (length s))
        (s @ [d1]) = (Inr (), s @ [d2])" "sensor_frame n d2"
      by blast
    with True ba show ?thesis by (simp add: Let_def)
  qed
  then obtain d2 where d2: "?filter (s @ [d1]) = (Inr (), s @ [d2])" "sensor_frame n d2"
    by blast
  have "\<exists>d3. (if 5 \<le> n then for_each gyro_columns (smooth_column lib (length s))
               else return ()) (s @ [d2]) = (Inr (), s @ [d3]) \<and> sensor_frame n d3"
  proof (cases "5 \<le> n")
    case False
    with d2 show ?thesis by (simp add: return_apply)
  next
    case True
    from for_each_invariant [of gyro_columns "sensor_frame n"
        "smooth_column lib (length s)" s, OF _ d2(2)]
      smooth_column_step [OF lib True] sub
    obtain d3 where "for_each gyro_columns (smooth_column lib (length s)) (s @ [d2]) =
        (Inr (), s @ [d3])" "sensor_frame n d3"
      by blast
    with True show ?thesis by simp
  qed
  then obtain d3 where d3: "(if 5 \<le> n then for_each gyro_columns (smooth_column lib (length s))
               else return ()) (s @ [d2]) = (Inr (), s @ [d3])" "sensor_frame n d3"
    by blast
  from d2(2) have n2: "nrows d2 = n" by (simp add: sensor_frame_def)
  have "preprocess_data lib self df s = (Inr (length s), s @ [d3])"
    unfolding preprocess_data_def
    using df d1(1) d2(1) d3(1) n2
    by (simp add: bind_apply df_copy_apply len_df_top return_apply)
  with d3(2) show ?thesis by blast
qed

end
